theory Spec2Isabelle
  imports Complex_Main "HOL-Library.Sublist"
begin

section \<open>The C++ and Android library operations the services use\<close>

text \<open>
  Raw pointers that the code only tests against \<open>nullptr\<close> are addresses; address 0
  is \<open>nullptr\<close>. \<open>float\<close> values are modelled by the real number they denote, so the
  rounding of float arithmetic and NaN are outside this model. Log output
  (\<open>LOGI\<close>, \<open>LOGE\<close>, \<open>LOGW\<close>, \<open>LOGD\<close>) and the simulated delay of
  \<open>sleep_for\<close> are not modelled.
\<close>

type_synonym ptr = nat

definition nullptr :: ptr where
  "nullptr = 0"

text \<open>
  Exceptions. The only operation of this code that can raise on the values it is given
  is the \<open>resize\<close> of the model buffer (\<open>std::length_error\<close>, derived from
  \<open>std::exception\<close>). \<open>std::string::substr(pos, n)\<close> raises only for a \<open>pos\<close>
  beyond the end of the string, and every call in this code has \<open>pos = 0\<close>: it is
  the total function below. Running out of memory is not modelled. A \<open>try\<close> block
  whose body holds no operation that can raise is modelled by its body alone.
\<close>

datatype exception = length_error

definition substr0 :: "string \<Rightarrow> nat \<Rightarrow> string" where
  "substr0 s n = take n s"

text \<open>
  \<open>std::vector<char>::resize(n)\<close> with \<open>n\<close> of type \<open>off_t\<close>: a negative \<open>n\<close>
  converts to a \<open>size_t\<close> beyond \<open>max_size()\<close> and raises; otherwise the vector is cut
  or padded with zero bytes. The vector is unchanged when the call raises.
\<close>

definition vector_resize :: "string \<Rightarrow> int \<Rightarrow> exception + string" where
  "vector_resize v n =
     (if n < 0 then Inl length_error
      else Inr (take (nat n) v @ replicate (nat n - length v) (CHR 0x00)))"

text \<open>
  The asset store. An asset manager answers \<open>AAssetManager_open(name, mode)\<close> with an
  asset or with null; an asset has the length \<open>AAsset_getLength\<close> reports and the bytes
  \<open>AAsset_read\<close> can deliver. \<open>AAsset_read a buf count\<close> copies at most \<open>count\<close> bytes
  to the front of \<open>buf\<close> and returns how many it copied.
\<close>

datatype asset_mode = AASSET_MODE_STREAMING | AASSET_MODE_BUFFER

record AAsset =
  asset_length :: int
  asset_bytes :: string

type_synonym AAssetManager = "string \<Rightarrow> asset_mode \<Rightarrow> AAsset option"

definition AAssetManager_open :: "AAssetManager \<Rightarrow> string \<Rightarrow> asset_mode \<Rightarrow> AAsset option" where
  "AAssetManager_open am name mode = am name mode"

definition AAsset_getLength :: "AAsset \<Rightarrow> int" where
  "AAsset_getLength a = asset_length a"

definition AAsset_read :: "AAsset \<Rightarrow> string \<Rightarrow> nat \<Rightarrow> int \<times> string" where
  "AAsset_read a buf count =
     (let n = min count (length (asset_bytes a))
      in (int n, take n (asset_bytes a) @ drop n buf))"

text \<open>
  What the platform decides at run time: the values the random engines yield
  (\<open>std::random_device\<close> seeds a fresh \<open>std::mt19937\<close> at every use), and how the
  stream prints a float under \<open>std::fixed\<close> and \<open>std::setprecision(n)\<close>, and the
  milliseconds the clock measures around the benchmark of the production service.
  \<open>variation_draw\<close> is what \<open>uniform_real_distribution<float>(-0.03f, 0.03f)\<close> returns.
  A platform fixes one outcome for each draw; the properties below hold for every
  platform, and none of them relates the draws of two calls.
\<close>

record platform =
  variation_draw :: real
  template_draw :: nat
  continuation_draw :: nat
  fixed_setprecision :: "nat \<Rightarrow> real \<Rightarrow> string"
  benchmark_ms :: int

text \<open>
  How the stream prints an integer: \<open>print_unsigned\<close> for a \<open>size_t\<close>, \<open>print_signed\<close>
  for an \<open>int\<close>.
\<close>

definition decimal_digit :: "nat \<Rightarrow> char" where
  "decimal_digit d = ''0123456789'' ! d"

function print_unsigned :: "nat \<Rightarrow> string" where
  "print_unsigned n =
     (if 10 \<le> n then print_unsigned (n div 10) else []) @ [decimal_digit (n mod 10)]"
  by pat_completeness auto
termination
  by (relation "measure id") auto

declare print_unsigned.simps [simp del]

definition print_signed :: "int \<Rightarrow> string" where
  "print_signed i =
     (if 0 \<le> i then print_unsigned (nat i) else CHR ''-'' # print_unsigned (nat (- i)))"

definition uniform_int_distribution :: "nat \<Rightarrow> nat \<Rightarrow> nat \<Rightarrow> nat" where
  "uniform_int_distribution lo hi g = lo + g mod (hi - lo + 1)"


section \<open>The service class of \<open>tflite_gpu_service.h\<close>\<close>

text \<open>
  The header declares one class for both builds; \<open>interpreter_\<close> and \<open>model_\<close> are
  \<open>void*\<close> in the mock build and owning pointers to runtime objects in the build with
  \<open>REAL_TFLITE_AVAILABLE\<close>, hence the two type parameters. Field names drop the
  trailing underscore of the source.
\<close>

record ('i, 'm) TFLiteGPUService =
  initialized :: bool
  model_loaded :: bool
  model_path :: string
  interpreter :: 'i
  model :: 'm
  gpu_delegate :: ptr
  asset_manager :: "AAssetManager option"
  model_buffer :: string

type_synonym mock_service = "(ptr, ptr) TFLiteGPUService"


section \<open>The mock implementation, \<open>tflite_gpu_service.cpp\<close>\<close>

text \<open>
  The constructor's initialiser list leaves \<open>model_\<close> out, so its first value is
  indeterminate: it is the constructor's parameter here.
\<close>

definition mock_TFLiteGPUService :: "ptr \<Rightarrow> mock_service" where
  "mock_TFLiteGPUService indeterminate =
     \<lparr>initialized = False, model_loaded = False, model_path = [],
      interpreter = nullptr, model = indeterminate, gpu_delegate = nullptr,
      asset_manager = None, model_buffer = []\<rparr>"

definition mock_isGPUAvailable :: "mock_service \<Rightarrow> bool \<times> mock_service" where
  "mock_isGPUAvailable s =
     (if gpu_delegate s \<noteq> nullptr then (True, s)
      else (let mock_gpu_available = True in (mock_gpu_available, s)))"

definition mock_getPerformanceScore :: "platform \<Rightarrow> mock_service \<Rightarrow> real \<times> mock_service" where
  "mock_getPerformanceScore P s =
     (if \<not> initialized s then (0, s)
      else (let base_score = (if gpu_delegate s \<noteq> nullptr then 0.7 else 0.4);
                score = base_score + variation_draw P;
                score = min 1 (max 0 score)
            in (score, s)))"

definition mock_cleanup :: "mock_service \<Rightarrow> mock_service" where
  "mock_cleanup s =
     (if initialized s then
        (let s = (if interpreter s \<noteq> nullptr then s\<lparr>interpreter := nullptr\<rparr> else s);
             s = (if gpu_delegate s \<noteq> nullptr then s\<lparr>gpu_delegate := nullptr\<rparr> else s);
             s = (if model s \<noteq> nullptr then s\<lparr>model := nullptr\<rparr> else s)
         in s\<lparr>initialized := False, model_loaded := False\<rparr>)
      else s)"

text \<open>
  A private method that can raise returns \<open>Inl e\<close> for the exception and \<open>Inr b\<close> for
  its return value, beside the state it leaves.
\<close>

definition mock_loadModelFromAssets :: "mock_service \<Rightarrow> (exception + bool) \<times> mock_service" where
  "mock_loadModelFromAssets s =
     (case asset_manager s of
        None \<Rightarrow> (Inr False, s)
      | Some am \<Rightarrow>
          (case AAssetManager_open am (model_path s) AASSET_MODE_BUFFER of
             None \<Rightarrow> (Inr False, s)
           | Some asset \<Rightarrow>
               (let file_size = AAsset_getLength asset in
                case vector_resize (model_buffer s) file_size of
                  Inl e \<Rightarrow> (Inl e, s)
                | Inr buf \<Rightarrow>
                    (let (read_size, buf) = AAsset_read asset buf (nat file_size);
                         s = s\<lparr>model_buffer := buf\<rparr>
                     in if read_size \<noteq> file_size then (Inr False, s)
                        else (let s = s\<lparr>model := 0x12345678\<rparr>
                              in if model s = nullptr then (Inr False, s)
                                 else (Inr True, s\<lparr>model_loaded := True\<rparr>))))))"

definition mock_loadModelFromFile :: "mock_service \<Rightarrow> bool \<times> mock_service" where
  "mock_loadModelFromFile s =
     (let s = s\<lparr>model := 0x12345678\<rparr>
      in if model s = nullptr then (False, s)
         else (True, s\<lparr>model_loaded := True\<rparr>))"

definition mock_loadModel :: "mock_service \<Rightarrow> (exception + bool) \<times> mock_service" where
  "mock_loadModel s =
     (if asset_manager s \<noteq> None then mock_loadModelFromAssets s
      else (let (ok, s) = mock_loadModelFromFile s in (Inr ok, s)))"

definition mock_initializeGPUDelegate :: "mock_service \<Rightarrow> bool \<times> mock_service" where
  "mock_initializeGPUDelegate s =
     (let mock_gpu_success = True
      in if mock_gpu_success then (True, s\<lparr>gpu_delegate := 0x87654321\<rparr>)
         else (False, s))"

definition mock_buildInterpreter :: "mock_service \<Rightarrow> bool \<times> mock_service" where
  "mock_buildInterpreter s =
     (if model s = nullptr then (False, s)
      else (let s = s\<lparr>interpreter := 0x11111111\<rparr>
            in if interpreter s = nullptr then (False, s) else (True, s)))"

definition mock_tokenizeInput :: "string \<Rightarrow> int list" where
  "mock_tokenizeInput input =
     (let tokens = [1];
          tokens = tokens @ map (\<lambda>c. int (of_char c))
                     (filter (\<lambda>c. (32::nat) \<le> of_char c \<and> of_char c \<le> (126::nat)) input);
          tokens = tokens @ [2];
          max_length = 512
      in if length tokens > max_length then take max_length tokens
         else tokens @ replicate (max_length - length tokens) 0)"

definition mock_setInputTensor :: "int list \<Rightarrow> mock_service \<Rightarrow> bool" where
  "mock_setInputTensor tokens s = (if interpreter s = nullptr then False else True)"

definition response_templates :: "string list" where
  "response_templates =
     [''I understand your query and here's my analysis: '',
      ''Based on the input, I can provide the following response: '',
      ''Thank you for your question. My processed response is: '',
      ''After analyzing your input, here's what I can tell you: '']"

definition continuations :: "string list" where
  "continuations =
     [''The information you provided is interesting and relevant.'',
      ''I've processed this through the mobile AI inference engine.'',
      ''This demonstrates successful TensorFlow Lite GPU acceleration.'',
      ''The response time shows optimal mobile performance.'',
      ''The neural network has generated this contextual output.'']"

definition mock_decodeOutput :: "platform \<Rightarrow> mock_service \<Rightarrow> string" where
  "mock_decodeOutput P s =
     (if interpreter s = nullptr then ''Error: No interpreter''
      else (let result = response_templates !
                           uniform_int_distribution 0 (length response_templates - 1) (template_draw P);
                result = result @ continuations !
                           uniform_int_distribution 0 (length continuations - 1) (continuation_draw P);
                performance_info = '' [TensorFlow Lite ''
                           @ (if gpu_delegate s \<noteq> nullptr then ''GPU'' else ''CPU'')
                           @ '' - Adreno 750 optimized]''
            in result @ performance_info))"

definition mock_generateFallbackResponse :: "platform \<Rightarrow> string \<Rightarrow> mock_service \<Rightarrow> string" where
  "mock_generateFallbackResponse P input s =
     (let response = ''TensorFlow Lite GPU Mock Response:\<newline>'';
          response = response @ ''Input: '' @ substr0 input 100;
          response = (if length input > 100 then response @ ''...'' else response);
          response = response @ ''\<newline>'';
          response = response @ ''Processing: GPU-accelerated inference simulation\<newline>'';
          response = response @ ''Backend: Adreno 750 GPU (simulated)\<newline>'';
          response = response @ ''Model: Mobile-optimized language model (mock)\<newline>'';
          response = response @ ''Performance: ~''
                       @ (if gpu_delegate s \<noteq> nullptr then ''200-500ms'' else ''500-1000ms'')
                       @ '' response time\<newline>'';
          response = response @ ''Status: Architecture ready for actual model integration\<newline>'';
          response = response @ ''GPU Available: ''
                       @ (if fst (mock_isGPUAvailable s) then ''Yes'' else ''No'') @ ''\<newline>'';
          score = fst (mock_getPerformanceScore P s);
          response = response @ ''Performance Score: ''
                       @ fixed_setprecision P 1 (score * 100) @ ''%''
      in response)"

text \<open>\<open>processInference\<close> leaves the service as it found it.\<close>

definition mock_processInference ::
    "platform \<Rightarrow> string \<Rightarrow> mock_service \<Rightarrow> string \<times> mock_service" where
  "mock_processInference P input_text s =
     (if \<not> initialized s then (''Error: Service not initialized'', s)
      else if \<not> model_loaded s then (mock_generateFallbackResponse P input_text s, s)
      else (let input_tokens = mock_tokenizeInput input_text
            in if \<not> mock_setInputTensor input_tokens s
               then (''Error: Failed to set input tensor'', s)
               else (let result = mock_decodeOutput P s in (result, s))))"

definition mock_warmUpModel :: "platform \<Rightarrow> mock_service \<Rightarrow> mock_service" where
  "mock_warmUpModel P s =
     (if model_loaded s then snd (mock_processInference P ''warmup'' s) else s)"

definition mock_initialize :: "platform \<Rightarrow> string \<Rightarrow> mock_service \<Rightarrow> bool \<times> mock_service" where
  "mock_initialize P path s =
     (let s = s\<lparr>model_path := path\<rparr>
      in case mock_loadModel s of
           (Inl e, s) \<Rightarrow> (False, mock_cleanup s)
         | (Inr False, s) \<Rightarrow> (False, s)
         | (Inr True, s) \<Rightarrow>
             (let (delegate_ok, s) = mock_initializeGPUDelegate s;
                  (built, s) = mock_buildInterpreter s
              in if \<not> built then (False, s)
                 else (let s = mock_warmUpModel P s
                       in (True, s\<lparr>initialized := True\<rparr>))))"

definition mock_initializeFallbackMode :: "mock_service \<Rightarrow> bool \<times> mock_service" where
  "mock_initializeFallbackMode s =
     (True, s\<lparr>initialized := True, model_loaded := False, gpu_delegate := 0x99999999\<rparr>)"

definition model_candidates :: "string list" where
  "model_candidates =
     [''models/phi3_mini_mobile.tflite'',
      ''models/distilbert_mobile.tflite'',
      ''models/text_generator_mobile.tflite'',
      ''models/gemma_270m_mobile.tflite'',
      ''models/test_model.tflite'']"

text \<open>
  The \<open>for\<close> loop of \<open>initializeWithAssets\<close> over the candidates still to try:
  \<open>(True, s)\<close> when it returned from inside the loop, \<open>(False, s)\<close> when it ran off the
  end of the list. The manager is the non-null argument the method has just stored in
  \<open>asset_manager_\<close>, which nothing in the loop assigns.
\<close>

fun mock_candidates_loop ::
    "platform \<Rightarrow> AAssetManager \<Rightarrow> string list \<Rightarrow> mock_service \<Rightarrow> bool \<times> mock_service" where
  "mock_candidates_loop P am [] s = (False, s)"
| "mock_candidates_loop P am (candidate # rest) s =
     (case AAssetManager_open am candidate AASSET_MODE_STREAMING of
        None \<Rightarrow> mock_candidates_loop P am rest s
      | Some asset \<Rightarrow>
          (case mock_initialize P candidate s of
             (True, s) \<Rightarrow> (True, s)
           | (False, s) \<Rightarrow> mock_candidates_loop P am rest s))"

definition mock_initializeWithAssets_from ::
    "string list \<Rightarrow> platform \<Rightarrow> AAssetManager \<Rightarrow> mock_service \<Rightarrow> bool \<times> mock_service" where
  "mock_initializeWithAssets_from candidates P am s =
     (let s = s\<lparr>asset_manager := Some am\<rparr>
      in case mock_candidates_loop P am candidates s of
           (True, s) \<Rightarrow> (True, s)
         | (False, s) \<Rightarrow> mock_initializeFallbackMode s)"

definition mock_initializeWithAssets ::
    "platform \<Rightarrow> AAssetManager \<Rightarrow> mock_service \<Rightarrow> bool \<times> mock_service" where
  "mock_initializeWithAssets = mock_initializeWithAssets_from model_candidates"


section \<open>The TensorFlow Lite runtime, as the production service sees it\<close>

text \<open>
  The runtime is outside the repository. A tensor is its type, its dimensions (the
  \<open>dims\<close> pointer may be null), its size in bytes and its buffer, read as floats
  through \<open>data.f\<close> and as 32-bit integers through \<open>data.i32\<close>. An interpreter is its
  input and output tensors, in the order of \<open>inputs()\<close> and \<open>outputs()\<close>; an entry is
  \<open>None\<close> where \<open>input_tensor(i)\<close> or \<open>output_tensor(i)\<close> returns null. What the calls
  into the runtime answer is a parameter of the model.
\<close>

datatype TfLiteStatus = kTfLiteOk | kTfLiteError | kTfLiteDelegateError | kTfLiteApplicationError

datatype TfLiteType = kTfLiteFloat32 | kTfLiteInt32 | kTfLiteOtherType int

record TfLiteTensor =
  tensor_type :: TfLiteType
  tensor_dims :: "int list option"
  tensor_bytes :: nat
  data_f :: "real list"
  data_i32 :: "int list"

record Interpreter =
  inputs :: "TfLiteTensor option list"
  outputs :: "TfLiteTensor option list"

datatype FlatBufferModel = FlatBufferModel string

record tflite_runtime =
  BuildFromFile :: "string \<Rightarrow> FlatBufferModel option"
  BuildFromBuffer :: "string \<Rightarrow> FlatBufferModel option"
  TfLiteGpuDelegateV2Create :: ptr
  InterpreterBuilder :: "FlatBufferModel \<Rightarrow> TfLiteStatus \<times> Interpreter option"
  ModifyGraphWithDelegate :: "ptr \<Rightarrow> Interpreter \<Rightarrow> TfLiteStatus \<times> Interpreter"
  ResizeInputTensor :: "nat \<Rightarrow> int list \<Rightarrow> Interpreter \<Rightarrow> Interpreter"
  SetNumThreads :: "int \<Rightarrow> Interpreter \<Rightarrow> Interpreter"
  AllocateTensors :: "Interpreter \<Rightarrow> TfLiteStatus \<times> Interpreter"
  Invoke :: "Interpreter \<Rightarrow> TfLiteStatus \<times> Interpreter"

type_synonym prod_service = "(Interpreter option, FlatBufferModel option) TFLiteGPUService"


section \<open>The production implementation, \<open>tflite_gpu_service_prod_headers.cpp\<close>\<close>

definition prod_TFLiteGPUService :: prod_service where
  "prod_TFLiteGPUService =
     \<lparr>initialized = False, model_loaded = False, model_path = [],
      interpreter = None, model = None, gpu_delegate = nullptr,
      asset_manager = None, model_buffer = []\<rparr>"


definition model_files :: "string list" where
  "model_files =
     [''models/real_tinyllama.tflite'',
      ''models/tiny_transformer.tflite'',
      ''models/numeric_model.tflite'',
      ''models/simple_text_model.tflite'']"

text \<open>
  The \<open>for\<close> loop of \<open>loadModelFromAssets\<close> over the files still to try; each
  \<open>continue\<close> is the recursive call. \<open>Inr False\<close> is the \<open>return false\<close> after the loop.
\<close>

fun prod_model_files_loop ::
    "tflite_runtime \<Rightarrow> string list \<Rightarrow> prod_service \<Rightarrow> (exception + bool) \<times> prod_service" where
  "prod_model_files_loop R [] s = (Inr False, s)"
| "prod_model_files_loop R (model_file # rest) s =
     (case (case asset_manager s of
              None \<Rightarrow> None
            | Some am \<Rightarrow> AAssetManager_open am model_file AASSET_MODE_BUFFER) of
        None \<Rightarrow> prod_model_files_loop R rest s
      | Some asset \<Rightarrow>
          (let asset_size = AAsset_getLength asset in
           if asset_size \<le> 0 then prod_model_files_loop R rest s
           else (case vector_resize (model_buffer s) asset_size of
                   Inl e \<Rightarrow> (Inl e, s)
                 | Inr buf \<Rightarrow>
                     (let (bytes_read, buf) = AAsset_read asset buf (nat asset_size);
                          s = s\<lparr>model_buffer := buf\<rparr>
                      in if bytes_read \<noteq> asset_size then prod_model_files_loop R rest s
                         else (let s = s\<lparr>model := BuildFromBuffer R (model_buffer s)\<rparr>
                               in if model s = None then prod_model_files_loop R rest s
                                  else (Inr True, s\<lparr>model_loaded := True\<rparr>))))))"

text \<open>
  \<open>loadModelFromAssets\<close> passes \<open>asset_manager_\<close> to \<open>AAssetManager_open\<close> unchecked;
  \<open>initializeWithAssets\<close>, its only caller, has stored a non-null manager before. With
  a null manager the model finds no asset.
\<close>

definition prod_loadModelFromAssets ::
    "tflite_runtime \<Rightarrow> prod_service \<Rightarrow> (exception + bool) \<times> prod_service" where
  "prod_loadModelFromAssets R s = prod_model_files_loop R model_files s"

definition prod_initializeGPUDelegate :: "tflite_runtime \<Rightarrow> prod_service \<Rightarrow> bool \<times> prod_service" where
  "prod_initializeGPUDelegate R s =
     (let s = s\<lparr>gpu_delegate := TfLiteGpuDelegateV2Create R\<rparr>
      in if gpu_delegate s = nullptr then (False, s) else (True, s))"

text \<open>
  A null dereference ends the process: the call neither returns nor raises. A method
  that can reach one returns \<open>None\<close> for it and \<open>Some\<close> of its result otherwise.

  \<open>buildInterpreter\<close>. \<open>prod_prepare\<close> is what the method does to the interpreter between
  the builder and \<open>AllocateTensors\<close>: the delegate, the resize of a dynamic input, the
  thread count. After a successful allocation the method logs every input tensor, and
  the arguments of that \<open>LOGI\<close> read \<open>tensor->name\<close>, \<open>tensor->type\<close> and \<open>tensor->dims\<close>
  with no test of \<open>tensor\<close>: a null input tensor ends the process there.
\<close>

definition prod_prepare :: "tflite_runtime \<Rightarrow> ptr \<Rightarrow> Interpreter \<Rightarrow> Interpreter" where
  "prod_prepare R delegate I =
     (let I = (if delegate \<noteq> nullptr then snd (ModifyGraphWithDelegate R delegate I) else I);
          I = (if inputs I \<noteq> [] then
                 (case inputs I ! 0 of
                    Some t \<Rightarrow>
                      (case tensor_dims t of
                         Some d \<Rightarrow>
                           if length d = 2 then
                             (let dim1 = d ! 1
                              in if dim1 \<le> 0 then ResizeInputTensor R 0 [1, 8] I else I)
                           else I
                       | None \<Rightarrow> I)
                  | None \<Rightarrow> I)
               else I)
      in SetNumThreads R 4 I)"

definition prod_buildInterpreter ::
    "tflite_runtime \<Rightarrow> prod_service \<Rightarrow> (bool \<times> prod_service) option" where
  "prod_buildInterpreter R s =
     (case model s of
        None \<Rightarrow> Some (False, s)
      | Some m \<Rightarrow>
          (let (status, built) = InterpreterBuilder R m;
               s = s\<lparr>interpreter := built\<rparr>
           in if status \<noteq> kTfLiteOk then Some (False, s)
              else (case interpreter s of
                      None \<Rightarrow> Some (False, s)
                    | Some I \<Rightarrow>
                        (let I = prod_prepare R (gpu_delegate s) I;
                             (status, I) = AllocateTensors R I;
                             s = s\<lparr>interpreter := Some I\<rparr>
                         in if status \<noteq> kTfLiteOk then Some (False, s)
                            else if None \<in> set (inputs I) then None
                            else Some (True, s)))))"

text \<open>
  \<open>char\<close> is unsigned on the ARM targets of this code, so a byte is its value from 0
  to 255.
\<close>

definition prod_tokenizeInput :: "string \<Rightarrow> int list" where
  "prod_tokenizeInput input =
     (let tokens = map (\<lambda>c. int (of_char c)) input;
          max_tokens = 128
      in if length tokens > max_tokens then take max_tokens tokens
         else tokens @ replicate (max_tokens - length tokens) 0)"

text \<open>
  \<open>setInputTensor\<close> writes whole elements: the trailing bytes that \<open>memcpy\<close> would
  copy into a buffer whose size is not a multiple of four are not represented.
\<close>

definition prod_setInputTensor :: "int list \<Rightarrow> prod_service \<Rightarrow> bool \<times> prod_service" where
  "prod_setInputTensor tokens s =
     (case interpreter s of
        None \<Rightarrow> (False, s)
      | Some I \<Rightarrow>
          if inputs I = [] then (False, s)
          else (case inputs I ! 0 of
                  None \<Rightarrow> (False, s)
                | Some input_tensor \<Rightarrow>
                    (let n = min (length tokens) (tensor_bytes input_tensor div 4)
                     in if tensor_type input_tensor = kTfLiteInt32 then
                          (let t = input_tensor\<lparr>data_i32 :=
                                     take n tokens @ drop n (data_i32 input_tensor)\<rparr>
                           in (True, s\<lparr>interpreter := Some (I\<lparr>inputs := (inputs I)[0 := Some t]\<rparr>)\<rparr>))
                        else if tensor_type input_tensor = kTfLiteFloat32 then
                          (let t = input_tensor\<lparr>data_f :=
                                     map real_of_int (take n tokens) @ drop n (data_f input_tensor)\<rparr>
                           in (True, s\<lparr>interpreter := Some (I\<lparr>inputs := (inputs I)[0 := Some t]\<rparr>)\<rparr>))
                        else (False, s))))"

definition prod_warmUpModel :: "tflite_runtime \<Rightarrow> prod_service \<Rightarrow> prod_service" where
  "prod_warmUpModel R s =
     (if interpreter s = None then s
      else (let dummy_input = ''warm up'';
                tokens = prod_tokenizeInput dummy_input;
                (set, s) = prod_setInputTensor tokens s
            in case interpreter s of
                 None \<Rightarrow> s
               | Some I \<Rightarrow> s\<lparr>interpreter := Some (snd (Invoke R I))\<rparr>))"


definition prod_initializeWithAssets ::
    "tflite_runtime \<Rightarrow> AAssetManager option \<Rightarrow> prod_service \<Rightarrow> (bool \<times> prod_service) option" where
  "prod_initializeWithAssets R am s =
     (if initialized s then Some (True, s)
      else if am = None then Some (False, s)
      else (let s = s\<lparr>asset_manager := am\<rparr>
            in case prod_loadModelFromAssets R s of
                 (Inl e, s) \<Rightarrow> Some (False, s)
               | (Inr False, s) \<Rightarrow> Some (False, s)
               | (Inr True, s) \<Rightarrow>
                   (let (delegate_ok, s) = prod_initializeGPUDelegate R s
                    in case prod_buildInterpreter R s of
                         None \<Rightarrow> None
                       | Some (built, s) \<Rightarrow>
                           if \<not> built then Some (False, s)
                           else (let s = prod_warmUpModel R s
                                 in Some (True, s\<lparr>initialized := True\<rparr>)))))"

text \<open>
  The two arg-max loops of \<open>decodeOutput\<close> are one scan: \<open>score i\<close> reads element \<open>i\<close>,
  the list holds the indices from 1 up to the bound, and the pair is \<open>best\<close> and
  \<open>best_score\<close>.
\<close>

fun argmax_scan :: "(nat \<Rightarrow> real) \<Rightarrow> nat list \<Rightarrow> nat \<times> real \<Rightarrow> nat \<times> real" where
  "argmax_scan score [] (best, best_score) = (best, best_score)"
| "argmax_scan score (i # rest) (best, best_score) =
     (if score i > best_score then argmax_scan score rest (i, score i)
      else argmax_scan score rest (best, best_score))"

definition decode_last_position :: "real list \<Rightarrow> int \<Rightarrow> int \<Rightarrow> nat \<times> real" where
  "decode_last_position data t v =
     (let offset = nat ((t - 1) * v);
          logits = (\<lambda>i. data ! (offset + i))
      in argmax_scan logits [1..<nat v] (0, logits 0))"

definition decode_flat :: "real list \<Rightarrow> nat \<Rightarrow> nat \<times> real" where
  "decode_flat data elements = argmax_scan (\<lambda>i. data ! i) [1..<elements] (0, data ! 0)"

definition type_code :: "TfLiteType \<Rightarrow> int" where
  "type_code ty = (case ty of kTfLiteFloat32 \<Rightarrow> 1 | kTfLiteInt32 \<Rightarrow> 2 | kTfLiteOtherType c \<Rightarrow> c)"

definition prod_decodeOutput :: "platform \<Rightarrow> prod_service \<Rightarrow> string" where
  "prod_decodeOutput P s =
     (case interpreter s of
        None \<Rightarrow> ''Error: No output tensors''
      | Some I \<Rightarrow>
          if outputs I = [] then ''Error: No output tensors''
          else (case outputs I ! 0 of
                  None \<Rightarrow> ''Error: Failed to get output tensor''
                | Some output_tensor \<Rightarrow>
                    if tensor_type output_tensor = kTfLiteFloat32 then
                      (let data = data_f output_tensor;
                           d = (case tensor_dims output_tensor of Some d \<Rightarrow> d | None \<Rightarrow> []);
                           rank = length d
                       in if rank = 3 \<and> d ! 0 \<ge> 1 \<and> d ! 1 \<ge> 1 \<and> d ! 2 > 0 then
                            (let (best, best_score) = decode_last_position data (d ! 1) (d ! 2)
                             in ''TensorFlow Lite response (next token '' @ print_signed (int best)
                                @ '', score: '' @ fixed_setprecision P 3 best_score @ '')'')
                          else
                            (let elements = tensor_bytes output_tensor div 4;
                                 (best_token, best_score) = decode_flat data elements
                             in ''TensorFlow Lite response (token '' @ print_unsigned best_token
                                @ '', score: '' @ fixed_setprecision P 3 best_score @ '')''))
                    else if tensor_type output_tensor = kTfLiteInt32 then
                      (let data = data_i32 output_tensor;
                           elements = tensor_bytes output_tensor div 4
                       in ''TensorFlow Lite response: ''
                          @ map (\<lambda>x. char_of x)
                              (filter (\<lambda>x. x > 0 \<and> x < 128) (take (min elements 10) data)))
                    else ''TensorFlow Lite response (unsupported output type: ''
                         @ print_signed (type_code (tensor_type output_tensor)) @ '')''))"

definition prod_generateFallbackResponse :: "string \<Rightarrow> string" where
  "prod_generateFallbackResponse input =
     (let response = ''TensorFlow Lite processed: '' @ [CHR 0x27] @ substr0 input 50;
          response = (if length input > 50 then response @ ''...'' else response);
          response = response @ [CHR 0x27] @ '' [Fallback mode]''
      in response)"

definition prod_processInference ::
    "tflite_runtime \<Rightarrow> platform \<Rightarrow> string \<Rightarrow> prod_service \<Rightarrow> string \<times> prod_service" where
  "prod_processInference R P input_text s =
     (if \<not> initialized s \<or> interpreter s = None then (''Error: Service not initialized'', s)
      else (let tokens = prod_tokenizeInput input_text;
                (set, s) = prod_setInputTensor tokens s
            in if \<not> set then (prod_generateFallbackResponse input_text, s)
               else (case interpreter s of
                       None \<Rightarrow> (prod_generateFallbackResponse input_text, s)
                     | Some I \<Rightarrow>
                         (let (status, I) = Invoke R I;
                              s = s\<lparr>interpreter := Some I\<rparr>
                          in if status \<noteq> kTfLiteOk then (prod_generateFallbackResponse input_text, s)
                             else (let result = prod_decodeOutput P s in (result, s))))))"

definition prod_getPerformanceScore ::
    "tflite_runtime \<Rightarrow> platform \<Rightarrow> prod_service \<Rightarrow> real \<times> prod_service" where
  "prod_getPerformanceScore R P s =
     (if \<not> initialized s then (0, s)
      else (let test_input = ''This is a performance test input for TensorFlow Lite GPU benchmarking'';
                (reply, s) = prod_processInference R P test_input s;
                duration = benchmark_ms P;
                base_score = (if gpu_delegate s \<noteq> nullptr then 0.8 else 0.6);
                time_penalty = min 1 (real_of_int duration / 1000);
                score = base_score * (1 - time_penalty * 0.5);
                score = min 1 (max 0 score)
            in (score, s)))"

definition prod_cleanup :: "prod_service \<Rightarrow> prod_service" where
  "prod_cleanup s =
     (if initialized s then
        (let s = (if gpu_delegate s \<noteq> nullptr then s\<lparr>gpu_delegate := nullptr\<rparr> else s);
             s = s\<lparr>interpreter := None\<rparr>;
             s = s\<lparr>model := None\<rparr>;
             s = s\<lparr>model_buffer := []\<rparr>
         in s\<lparr>initialized := False, model_loaded := False\<rparr>)
      else s)"


section \<open>The fallback service, \<open>onnx_mobile_service.cpp\<close>\<close>

record ONNXMobileService =
  onnx_initialized :: bool
  onnx_model_path :: string

definition ONNXMobileService_new :: ONNXMobileService where
  "ONNXMobileService_new = \<lparr>onnx_initialized = False, onnx_model_path = []\<rparr>"

definition ONNXMobileService_initialize ::
    "string \<Rightarrow> ONNXMobileService \<Rightarrow> bool \<times> ONNXMobileService" where
  "ONNXMobileService_initialize path s =
     (True, s\<lparr>onnx_model_path := path, onnx_initialized := True\<rparr>)"

definition ONNXMobileService_processInference ::
    "string \<Rightarrow> ONNXMobileService \<Rightarrow> string \<times> ONNXMobileService" where
  "ONNXMobileService_processInference input_text s =
     (if \<not> onnx_initialized s then (''Error: Service not initialized'', s)
      else (''ONNX Runtime Mobile inference result for: '' @ input_text, s))"

definition ONNXMobileService_isNNAPIAvailable :: "ONNXMobileService \<Rightarrow> bool \<times> ONNXMobileService" where
  "ONNXMobileService_isNNAPIAvailable s = (True, s)"

definition ONNXMobileService_cleanup :: "ONNXMobileService \<Rightarrow> ONNXMobileService" where
  "ONNXMobileService_cleanup s = (if onnx_initialized s then s\<lparr>onnx_initialized := False\<rparr> else s)"


section \<open>The orchestrator, \<open>mobile_ai_jni_bridge.cpp\<close>\<close>

text \<open>
  The bridge is compiled against the two service headers; which services exist is
  decided by \<open>TFLITE_GPU_AVAILABLE\<close> and \<open>ONNX_MOBILE_AVAILABLE\<close>, and which
  implementation of a header is linked is decided by the build. A build is therefore
  the two flags and the methods of the linked services that the bridge calls, each
  taking the service object and returning it beside its result.
\<close>

record ('t, 'o) build =
  TFLITE_GPU_AVAILABLE :: bool
  ONNX_MOBILE_AVAILABLE :: bool
  tflite_new :: 't
  tflite_initialize :: "string \<Rightarrow> 't \<Rightarrow> bool \<times> 't"
  tflite_processInference :: "string \<Rightarrow> 't \<Rightarrow> string \<times> 't"
  tflite_getPerformanceScore :: "'t \<Rightarrow> real \<times> 't"
  tflite_cleanup :: "'t \<Rightarrow> 't"
  onnx_new :: 'o
  onnx_initialize :: "string \<Rightarrow> 'o \<Rightarrow> bool \<times> 'o"
  onnx_isNNAPIAvailable :: "'o \<Rightarrow> bool \<times> 'o"
  onnx_processInference :: "string \<Rightarrow> 'o \<Rightarrow> string \<times> 'o"
  onnx_cleanup :: "'o \<Rightarrow> 'o"

text \<open>The file's globals; a null \<open>unique_ptr\<close> is \<open>None\<close>.\<close>

record ('t, 'o) globals =
  tflite_service :: "'t option"
  onnx_service :: "'o option"
  is_initialized :: bool
  active_backend :: string

definition globals_at_load :: "('t, 'o) globals" where
  "globals_at_load =
     \<lparr>tflite_service = None, onnx_service = None, is_initialized = False,
      active_backend = ''none''\<rparr>"

text \<open>
  \<open>initializeNative\<close>, in its three parts: the block under \<open>TFLITE_GPU_AVAILABLE\<close>,
  the block under \<open>ONNX_MOBILE_AVAILABLE\<close>, and the final test of \<open>success\<close>. Each
  block takes and returns the local \<open>success\<close> and the globals. String marshalling
  through \<open>JNIEnv\<close> is left out: the functions take and return the C++ strings.
\<close>

definition initializeNative_tflite ::
    "('t, 'o) build \<Rightarrow> string \<Rightarrow> bool \<times> ('t, 'o) globals \<Rightarrow> bool \<times> ('t, 'o) globals" where
  "initializeNative_tflite B path = (\<lambda>(success, g).
     if TFLITE_GPU_AVAILABLE B then
       (case tflite_initialize B path (tflite_new B) of
          (True, t) \<Rightarrow>
            (let g = g\<lparr>active_backend := ''tflite_gpu''\<rparr>;
                 success = True;
                 (performance, t) = tflite_getPerformanceScore B t
             in (success, g\<lparr>tflite_service := Some t\<rparr>))
        | (False, t) \<Rightarrow> (success, g\<lparr>tflite_service := None\<rparr>))
     else (success, g))"

definition initializeNative_onnx ::
    "('t, 'o) build \<Rightarrow> string \<Rightarrow> bool \<times> ('t, 'o) globals \<Rightarrow> bool \<times> ('t, 'o) globals" where
  "initializeNative_onnx B path = (\<lambda>(success, g).
     if ONNX_MOBILE_AVAILABLE B then
       (if \<not> success then
          (case onnx_initialize B path (onnx_new B) of
             (True, s) \<Rightarrow>
               (case onnx_isNNAPIAvailable B s of
                  (True, s) \<Rightarrow>
                    (True, g\<lparr>onnx_service := Some s, active_backend := ''onnx_mobile''\<rparr>)
                | (False, s) \<Rightarrow> (success, g\<lparr>onnx_service := None\<rparr>))
           | (False, s) \<Rightarrow> (success, g\<lparr>onnx_service := None\<rparr>))
        else (success, g))
     else (success, g))"

definition initializeNative ::
    "('t, 'o) build \<Rightarrow> string \<Rightarrow> ('t, 'o) globals \<Rightarrow> bool \<times> ('t, 'o) globals" where
  "initializeNative B path g =
     (let success = False;
          (success, g) = initializeNative_tflite B path (success, g);
          (success, g) = initializeNative_onnx B path (success, g)
      in if success then (success, g\<lparr>is_initialized := True\<rparr>) else (success, g))"

text \<open>
  \<open>processInferenceNative\<close>, likewise: the block of each service takes and returns the
  local \<open>result\<close> and the globals.
\<close>

definition processInferenceNative_tflite ::
    "('t, 'o) build \<Rightarrow> string \<Rightarrow> string \<times> ('t, 'o) globals \<Rightarrow> string \<times> ('t, 'o) globals" where
  "processInferenceNative_tflite B input = (\<lambda>(result, g).
     if TFLITE_GPU_AVAILABLE B then
       (if active_backend g = ''tflite_gpu'' \<and> tflite_service g \<noteq> None then
          (let (result, t) = tflite_processInference B input (the (tflite_service g))
           in (result, g\<lparr>tflite_service := Some t\<rparr>))
        else (result, g))
     else (result, g))"

definition processInferenceNative_onnx ::
    "('t, 'o) build \<Rightarrow> string \<Rightarrow> string \<times> ('t, 'o) globals \<Rightarrow> string \<times> ('t, 'o) globals" where
  "processInferenceNative_onnx B input = (\<lambda>(result, g).
     if ONNX_MOBILE_AVAILABLE B then
       (if active_backend g = ''onnx_mobile'' \<and> onnx_service g \<noteq> None then
          (let (result, s) = onnx_processInference B input (the (onnx_service g))
           in (result, g\<lparr>onnx_service := Some s\<rparr>))
        else (result, g))
     else (result, g))"

definition processInferenceNative ::
    "('t, 'o) build \<Rightarrow> string \<Rightarrow> ('t, 'o) globals \<Rightarrow> string \<times> ('t, 'o) globals" where
  "processInferenceNative B input g =
     (if \<not> is_initialized g then (''Error: Service not initialized'', g)
      else
        (let result = [];
             (result, g) = processInferenceNative_tflite B input (result, g);
             (result, g) = processInferenceNative_onnx B input (result, g);
             result = (if result = [] then ''Error: No active backend available'' else result)
         in (result, g)))"

definition cleanupNative :: "('t, 'o) build \<Rightarrow> ('t, 'o) globals \<Rightarrow> ('t, 'o) globals" where
  "cleanupNative B g =
     (let g = (if TFLITE_GPU_AVAILABLE B then
                 (case tflite_service g of
                    Some t \<Rightarrow> (let t = tflite_cleanup B t in g\<lparr>tflite_service := None\<rparr>)
                  | None \<Rightarrow> g)
               else g);
          g = (if ONNX_MOBILE_AVAILABLE B then
                 (case onnx_service g of
                    Some s \<Rightarrow> (let s = onnx_cleanup B s in g\<lparr>onnx_service := None\<rparr>)
                  | None \<Rightarrow> g)
               else g)
      in g\<lparr>is_initialized := False, active_backend := ''none''\<rparr>)"

text \<open>
  The build that links the mock service and the ONNX service of this repository,
  on a platform \<open>P\<close>; \<open>indeterminate\<close> is the value a new mock service finds in
  \<open>model_\<close>. A build holds services whose methods return: the production
  service, whose \<open>initialize\<close> can end the process, is studied on its own below.
\<close>

definition mock_build :: "platform \<Rightarrow> ptr \<Rightarrow> (mock_service, ONNXMobileService) build" where
  "mock_build P indeterminate =
     \<lparr>TFLITE_GPU_AVAILABLE = True, ONNX_MOBILE_AVAILABLE = True,
      tflite_new = mock_TFLiteGPUService indeterminate,
      tflite_initialize = mock_initialize P,
      tflite_processInference = mock_processInference P,
      tflite_getPerformanceScore = mock_getPerformanceScore P,
      tflite_cleanup = mock_cleanup,
      onnx_new = ONNXMobileService_new,
      onnx_initialize = ONNXMobileService_initialize,
      onnx_isNNAPIAvailable = ONNXMobileService_isNNAPIAvailable,
      onnx_processInference = ONNXMobileService_processInference,
      onnx_cleanup = ONNXMobileService_cleanup\<rparr>"


section \<open>Concrete platforms, runtimes and asset stores\<close>

text \<open>
  The values the examples below run on. \<open>print_fixed\<close> prints a non-negative number with
  \<open>n\<close> decimals, rounding half up; \<open>steady_platform\<close> prints floats with it and draws
  0.01 for the score variation. \<open>runtime_without_model\<close> finds no model file and creates
  no delegate. \<open>cpu_only_runtime\<close> loads every model and builds an interpreter whose
  output tensor holds the scores 0.1, 0.9, 0.9, 0.2, but creates no GPU delegate.
  \<open>runtime_without_interpreter\<close>, \<open>runtime_without_tensors\<close> and
  \<open>runtime_with_null_input\<close> are \<open>cpu_only_runtime\<close> with a builder that fails, an
  allocation that fails, and an interpreter whose one input tensor is null.
  \<open>empty_asset_store\<close> has no asset; \<open>small_asset_store\<close> has one asset that reads in
  full and one that reports a negative length.

  Two builds beside \<open>mock_build\<close>. \<open>onnx_only_build\<close> is the build without
  \<open>TFLITE_GPU_AVAILABLE\<close>. The mock service and the ONNX service never fail to
  initialise from a path, so \<open>selective_build\<close> links a TensorFlow Lite service whose
  \<open>initialize\<close> is the mock's on the path \<open>model.tflite\<close> and returns false on every
  other path, and an ONNX service whose \<open>isNNAPIAvailable\<close> answers false.
\<close>

definition print_fixed :: "nat \<Rightarrow> real \<Rightarrow> string" where
  "print_fixed n x =
     (let scaled = nat \<lfloor>x * 10 ^ n + 1 / 2\<rfloor>;
          fraction = print_unsigned (scaled mod 10 ^ n)
      in print_unsigned (scaled div 10 ^ n) @ ''.''
         @ replicate (n - length fraction) (CHR ''0'') @ fraction)"

definition steady_platform :: platform where
  "steady_platform =
     \<lparr>variation_draw = 0.01, template_draw = 0, continuation_draw = 0,
      fixed_setprecision = print_fixed, benchmark_ms = 150\<rparr>"

definition runtime_without_model :: tflite_runtime where
  "runtime_without_model =
     \<lparr>BuildFromFile = (\<lambda>path. None), BuildFromBuffer = (\<lambda>bytes. None),
      TfLiteGpuDelegateV2Create = nullptr,
      InterpreterBuilder = (\<lambda>m. (kTfLiteError, None)),
      ModifyGraphWithDelegate = (\<lambda>d I. (kTfLiteOk, I)),
      ResizeInputTensor = (\<lambda>i shape I. I),
      SetNumThreads = (\<lambda>n I. I),
      AllocateTensors = (\<lambda>I. (kTfLiteOk, I)),
      Invoke = (\<lambda>I. (kTfLiteOk, I))\<rparr>"

definition scoring_interpreter :: "int list \<Rightarrow> Interpreter" where
  "scoring_interpreter shape =
     \<lparr>inputs = [Some \<lparr>tensor_type = kTfLiteInt32, tensor_dims = Some [1, 128],
                      tensor_bytes = 512, data_f = [], data_i32 = replicate 128 0\<rparr>],
      outputs = [Some \<lparr>tensor_type = kTfLiteFloat32, tensor_dims = Some shape,
                       tensor_bytes = 16, data_f = [0.1, 0.9, 0.9, 0.2], data_i32 = []\<rparr>]\<rparr>"


definition decoding_service :: "int list \<Rightarrow> prod_service" where
  "decoding_service shape =
     prod_TFLiteGPUService\<lparr>initialized := True, model_loaded := True,
       interpreter := Some (scoring_interpreter shape)\<rparr>"




definition empty_asset_store :: AAssetManager where
  "empty_asset_store = (\<lambda>name mode. None)"



definition selective_build :: "(mock_service, ONNXMobileService) build" where
  "selective_build =
     (mock_build steady_platform 0)
       \<lparr>tflite_initialize :=
          (\<lambda>path t. if path = ''model.tflite'' then mock_initialize steady_platform path t
                     else (False, t)),
        onnx_isNNAPIAvailable := (\<lambda>s. (False, s))\<rparr>"


section \<open>Backend selection\<close>

lemma initializeNative_tflite_ok:
  "TFLITE_GPU_AVAILABLE B \<Longrightarrow> fst (tflite_initialize B path (tflite_new B)) \<Longrightarrow>
   initializeNative_tflite B path (False, g) =
     (True, g\<lparr>active_backend := ''tflite_gpu'',
              tflite_service := Some (snd (tflite_getPerformanceScore B
                                             (snd (tflite_initialize B path (tflite_new B)))))\<rparr>)"
  by (auto simp: initializeNative_tflite_def Let_def split: prod.splits bool.splits)

lemma initializeNative_tflite_fail:
  "TFLITE_GPU_AVAILABLE B \<Longrightarrow> \<not> fst (tflite_initialize B path (tflite_new B)) \<Longrightarrow>
   initializeNative_tflite B path (False, g) = (False, g\<lparr>tflite_service := None\<rparr>)"
  by (auto simp: initializeNative_tflite_def Let_def split: prod.splits bool.splits)

lemma initializeNative_onnx_skip:
  "initializeNative_onnx B path (True, g) = (True, g)"
  by (simp add: initializeNative_onnx_def)

lemma initializeNative_onnx_try:
  "ONNX_MOBILE_AVAILABLE B \<Longrightarrow>
   initializeNative_onnx B path (False, g) =
     (if fst (onnx_initialize B path (onnx_new B)) \<and>
         fst (onnx_isNNAPIAvailable B (snd (onnx_initialize B path (onnx_new B))))
      then (True, g\<lparr>onnx_service :=
                       Some (snd (onnx_isNNAPIAvailable B (snd (onnx_initialize B path (onnx_new B))))),
                     active_backend := ''onnx_mobile''\<rparr>)
      else (False, g\<lparr>onnx_service := None\<rparr>))"
  by (auto simp: initializeNative_onnx_def Let_def split: prod.splits bool.splits)

lemma mock_initialize_from_file:
  "asset_manager s = None \<Longrightarrow> fst (mock_initialize P path s)"
  by (simp add: mock_initialize_def mock_loadModel_def mock_loadModelFromFile_def
      mock_initializeGPUDelegate_def mock_buildInterpreter_def nullptr_def Let_def)

text \<open>
  Claim C1. In a build with both services, whenever the TensorFlow Lite service's
  \<open>initialize\<close> returns true for the path, \<open>initializeNative\<close> returns true with
  \<open>active_backend = "tflite_gpu"\<close> and the service stored, whatever the ONNX service would
  have answered (so also when it would have succeeded). The ONNX service is not tried:
  \<open>onnx_service\<close> keeps its value, and replacing the ONNX service's \<open>initialize\<close> and
  \<open>isNNAPIAvailable\<close> by any other functions changes nothing in the outcome.
\<close>

theorem initializeNative_prefers_tflite_gpu:
  assumes "TFLITE_GPU_AVAILABLE B" and "ONNX_MOBILE_AVAILABLE B"
    and "fst (tflite_initialize B path (tflite_new B))"
  shows "fst (initializeNative B path g) \<and>
         is_initialized (snd (initializeNative B path g)) \<and>
         active_backend (snd (initializeNative B path g)) = ''tflite_gpu'' \<and>
         tflite_service (snd (initializeNative B path g)) \<noteq> None \<and>
         onnx_service (snd (initializeNative B path g)) = onnx_service g \<and>
         (\<forall>f h. initializeNative (B\<lparr>onnx_initialize := f, onnx_isNNAPIAvailable := h\<rparr>) path g
                = initializeNative B path g)"
proof -
  have first: "initializeNative_tflite B path (False, g) =
     (True, g\<lparr>active_backend := ''tflite_gpu'',
              tflite_service := Some (snd (tflite_getPerformanceScore B
                                             (snd (tflite_initialize B path (tflite_new B)))))\<rparr>)"
    using assms by (simp add: initializeNative_tflite_ok)
  have same: "initializeNative_tflite (B\<lparr>onnx_initialize := f, onnx_isNNAPIAvailable := h\<rparr>) path (False, g)
      = initializeNative_tflite B path (False, g)" for f h
    by (simp add: initializeNative_tflite_def Let_def split: prod.splits bool.splits)
  show ?thesis
    by (simp add: initializeNative_def same first initializeNative_onnx_skip)
qed

theorem initializeNative_prefers_tflite_gpu_witness:
  "TFLITE_GPU_AVAILABLE (mock_build steady_platform 0) \<and>
   ONNX_MOBILE_AVAILABLE (mock_build steady_platform 0) \<and>
   fst (tflite_initialize (mock_build steady_platform 0) ''model.tflite''
          (tflite_new (mock_build steady_platform 0))) \<and>
   fst (onnx_initialize (mock_build steady_platform 0) ''model.tflite''
          (onnx_new (mock_build steady_platform 0))) \<and>
   fst (initializeNative (mock_build steady_platform 0) ''model.tflite'' globals_at_load) \<and>
   active_backend (snd (initializeNative (mock_build steady_platform 0) ''model.tflite'' globals_at_load))
     = ''tflite_gpu'' \<and>
   onnx_service (snd (initializeNative (mock_build steady_platform 0) ''model.tflite'' globals_at_load))
     = None"
proof -
  have a: "TFLITE_GPU_AVAILABLE (mock_build steady_platform 0)"
    and b: "ONNX_MOBILE_AVAILABLE (mock_build steady_platform 0)"
    by (simp_all add: mock_build_def)
  have c: "fst (tflite_initialize (mock_build steady_platform 0) ''model.tflite''
                  (tflite_new (mock_build steady_platform 0)))"
    by (simp add: mock_build_def mock_initialize_from_file mock_TFLiteGPUService_def)
  have d: "fst (onnx_initialize (mock_build steady_platform 0) ''model.tflite''
                  (onnx_new (mock_build steady_platform 0)))"
    by (simp add: mock_build_def ONNXMobileService_initialize_def)
  show ?thesis
    using initializeNative_prefers_tflite_gpu [OF a b c, of globals_at_load] a b c d
    by (simp add: globals_at_load_def)
qed

text \<open>
  Claim C2, as amended. In a build with both services, when the TensorFlow Lite
  service's \<open>initialize\<close> returns false: \<open>initializeNative\<close> succeeds with
  \<open>active_backend = "onnx_mobile"\<close> exactly when the ONNX service's \<open>initialize\<close> returns
  true and then its \<open>isNNAPIAvailable\<close> returns true. When the fallback fails too,
  \<open>initializeNative\<close> returns false, in every state of the orchestrator; it releases
  both services and leaves \<open>is_initialized\<close> and \<open>active_backend\<close> as they were. When
  moreover the orchestrator was not initialised at the call, \<open>is_initialized\<close> stays
  false and \<open>processInferenceNative\<close> answers every input with
  \<open>"Error: Service not initialized"\<close> and leaves the globals as they are, so every
  later call answers the same. When the orchestrator was initialised at the call, it
  stays initialised and \<open>processInferenceNative\<close> answers every input with
  \<open>"Error: No active backend available"\<close>, again leaving the globals as they are.
\<close>

theorem initializeNative_fallback_on_failure:
  assumes "TFLITE_GPU_AVAILABLE B" and "ONNX_MOBILE_AVAILABLE B"
    and "\<not> fst (tflite_initialize B path (tflite_new B))"
  shows "((fst (initializeNative B path g) \<and>
           is_initialized (snd (initializeNative B path g)) \<and>
           active_backend (snd (initializeNative B path g)) = ''onnx_mobile'' \<and>
           onnx_service (snd (initializeNative B path g)) \<noteq> None)
          \<longleftrightarrow>
          (fst (onnx_initialize B path (onnx_new B)) \<and>
           fst (onnx_isNNAPIAvailable B (snd (onnx_initialize B path (onnx_new B))))))
       \<and> (\<not> (fst (onnx_initialize B path (onnx_new B)) \<and>
              fst (onnx_isNNAPIAvailable B (snd (onnx_initialize B path (onnx_new B))))) \<longrightarrow>
            initializeNative B path g
              = (False, g\<lparr>tflite_service := None, onnx_service := None\<rparr>))
       \<and> (\<not> (fst (onnx_initialize B path (onnx_new B)) \<and>
              fst (onnx_isNNAPIAvailable B (snd (onnx_initialize B path (onnx_new B)))))
            \<and> \<not> is_initialized g \<longrightarrow>
            \<not> is_initialized (snd (initializeNative B path g)) \<and>
            (\<forall>input. processInferenceNative B input (snd (initializeNative B path g))
                 = (''Error: Service not initialized'', snd (initializeNative B path g))))
       \<and> (\<not> (fst (onnx_initialize B path (onnx_new B)) \<and>
              fst (onnx_isNNAPIAvailable B (snd (onnx_initialize B path (onnx_new B)))))
            \<and> is_initialized g \<longrightarrow>
            is_initialized (snd (initializeNative B path g)) \<and>
            (\<forall>input. processInferenceNative B input (snd (initializeNative B path g))
                 = (''Error: No active backend available'', snd (initializeNative B path g))))"
  using assms
  by (simp add: initializeNative_def initializeNative_tflite_fail initializeNative_onnx_try
      processInferenceNative_def processInferenceNative_tflite_def processInferenceNative_onnx_def)

lemma selective_build_flags:
  "TFLITE_GPU_AVAILABLE selective_build" "ONNX_MOBILE_AVAILABLE selective_build"
  by (simp_all add: selective_build_def mock_build_def)

lemma selective_build_missing:
  "\<not> fst (tflite_initialize selective_build ''missing.tflite'' (tflite_new selective_build))"
  by (simp add: selective_build_def)

lemma selective_build_present:
  "fst (tflite_initialize selective_build ''model.tflite'' (tflite_new selective_build))"
  by (simp add: selective_build_def mock_build_def mock_initialize_from_file
      mock_TFLiteGPUService_def)

lemma selective_build_fallback:
  "\<not> (fst (onnx_initialize selective_build path (onnx_new selective_build)) \<and>
       fst (onnx_isNNAPIAvailable selective_build
              (snd (onnx_initialize selective_build path (onnx_new selective_build)))))"
  by (simp add: selective_build_def)

theorem initializeNative_fallback_on_failure_witness:
  "TFLITE_GPU_AVAILABLE selective_build \<and>
   ONNX_MOBILE_AVAILABLE selective_build \<and>
   \<not> fst (tflite_initialize selective_build ''missing.tflite'' (tflite_new selective_build)) \<and>
   \<not> fst (onnx_isNNAPIAvailable selective_build
            (snd (onnx_initialize selective_build ''missing.tflite'' (onnx_new selective_build)))) \<and>
   \<not> is_initialized (globals_at_load :: (mock_service, ONNXMobileService) globals) \<and>
   \<not> fst (initializeNative selective_build ''missing.tflite'' globals_at_load) \<and>
   \<not> is_initialized (snd (initializeNative selective_build ''missing.tflite'' globals_at_load)) \<and>
   active_backend (snd (initializeNative selective_build ''missing.tflite'' globals_at_load))
     = ''none'' \<and>
   fst (processInferenceNative selective_build ''hello''
          (snd (initializeNative selective_build ''missing.tflite'' globals_at_load)))
     = ''Error: Service not initialized'' \<and>
   is_initialized (snd (initializeNative selective_build ''model.tflite'' globals_at_load)) \<and>
   \<not> fst (initializeNative selective_build ''missing.tflite''
            (snd (initializeNative selective_build ''model.tflite'' globals_at_load))) \<and>
   processInferenceNative selective_build ''hello''
     (snd (initializeNative selective_build ''missing.tflite''
             (snd (initializeNative selective_build ''model.tflite'' globals_at_load))))
     = (''Error: No active backend available'',
        snd (initializeNative selective_build ''missing.tflite''
               (snd (initializeNative selective_build ''model.tflite'' globals_at_load))))"
proof -
  let ?r = "initializeNative selective_build ''missing.tflite'' globals_at_load"
  let ?g = "snd (initializeNative selective_build ''model.tflite'' globals_at_load)"
  let ?q = "initializeNative selective_build ''missing.tflite'' ?g"
  have n: "\<not> fst (onnx_isNNAPIAvailable selective_build
            (snd (onnx_initialize selective_build ''missing.tflite'' (onnx_new selective_build))))"
    by (simp add: selective_build_def)
  have e: "\<not> is_initialized (globals_at_load :: (mock_service, ONNXMobileService) globals)"
    by (simp add: globals_at_load_def)
  from initializeNative_fallback_on_failure
         [OF selective_build_flags selective_build_missing, of globals_at_load]
       selective_build_fallback [of "''missing.tflite''"] e
  have r: "?r = (False, globals_at_load\<lparr>tflite_service := None, onnx_service := None\<rparr>)"
    and i: "\<not> is_initialized (snd ?r)"
    and p: "\<forall>input. processInferenceNative selective_build input (snd ?r)
                     = (''Error: Service not initialized'', snd ?r)"
    by blast+
  have f: "\<not> fst ?r" unfolding r by simp
  have b: "active_backend (snd ?r) = ''none''" unfolding r by (simp add: globals_at_load_def)
  have a: "fst (processInferenceNative selective_build ''hello'' (snd ?r))
             = ''Error: Service not initialized''"
    using p by simp
  have g: "is_initialized ?g"
    by (simp add: initializeNative_def initializeNative_onnx_skip
        initializeNative_tflite_ok [OF selective_build_flags(1) selective_build_present])
  from initializeNative_fallback_on_failure
         [OF selective_build_flags selective_build_missing, of ?g]
       selective_build_fallback [of "''missing.tflite''"] g
  have r2: "?q = (False, ?g\<lparr>tflite_service := None, onnx_service := None\<rparr>)"
    and p2: "\<forall>input. processInferenceNative selective_build input (snd ?q)
                     = (''Error: No active backend available'', snd ?q)"
    by blast+
  have f2: "\<not> fst ?q" unfolding r2 by simp
  have a2: "processInferenceNative selective_build ''hello'' (snd ?q)
              = (''Error: No active backend available'', snd ?q)"
    using p2 by simp
  show ?thesis
    using selective_build_flags selective_build_missing n e f i b a g f2 a2 by blast
qed

text \<open>
  Claim C2 as stated fails on an orchestrator that is already initialised: after a
  successful \<open>initializeNative\<close>, a call in which both services fail returns false but
  leaves \<open>is_initialized\<close> true and \<open>active_backend\<close> at \<open>"tflite_gpu"\<close> with no service
  behind it, and \<open>processInferenceNative\<close> then answers
  \<open>"Error: No active backend available"\<close>, not the sentinel of an uninitialised
  orchestrator.
\<close>

theorem initializeNative_failure_after_success_stays_initialized:
  "TFLITE_GPU_AVAILABLE selective_build \<and>
   ONNX_MOBILE_AVAILABLE selective_build \<and>
   \<not> fst (tflite_initialize selective_build ''missing.tflite'' (tflite_new selective_build)) \<and>
   \<not> fst (onnx_isNNAPIAvailable selective_build
            (snd (onnx_initialize selective_build ''missing.tflite'' (onnx_new selective_build)))) \<and>
   \<not> fst (initializeNative selective_build ''missing.tflite''
            (snd (initializeNative selective_build ''model.tflite'' globals_at_load))) \<and>
   is_initialized
     (snd (initializeNative selective_build ''missing.tflite''
             (snd (initializeNative selective_build ''model.tflite'' globals_at_load)))) \<and>
   active_backend
     (snd (initializeNative selective_build ''missing.tflite''
             (snd (initializeNative selective_build ''model.tflite'' globals_at_load))))
     = ''tflite_gpu'' \<and>
   tflite_service
     (snd (initializeNative selective_build ''missing.tflite''
             (snd (initializeNative selective_build ''model.tflite'' globals_at_load))))
     = None \<and>
   fst (processInferenceNative selective_build ''hello''
          (snd (initializeNative selective_build ''missing.tflite''
                  (snd (initializeNative selective_build ''model.tflite'' globals_at_load)))))
     = ''Error: No active backend available''"
proof -
  let ?g = "snd (initializeNative selective_build ''model.tflite'' globals_at_load)"
  let ?r = "initializeNative selective_build ''missing.tflite'' ?g"
  have n: "\<not> fst (onnx_isNNAPIAvailable selective_build
            (snd (onnx_initialize selective_build ''missing.tflite'' (onnx_new selective_build))))"
    by (simp add: selective_build_def)
  have g: "is_initialized ?g" "active_backend ?g = ''tflite_gpu''"
    by (simp_all add: initializeNative_def initializeNative_onnx_skip
        initializeNative_tflite_ok [OF selective_build_flags(1) selective_build_present])
  have r: "?r = (False, ?g\<lparr>tflite_service := None, onnx_service := None\<rparr>)"
    using selective_build_fallback [of "''missing.tflite''"]
    by (simp add: initializeNative_def [of selective_build "''missing.tflite''"]
        initializeNative_tflite_fail [OF selective_build_flags(1) selective_build_missing]
        initializeNative_onnx_try [OF selective_build_flags(2)])
  have s: "fst (processInferenceNative selective_build ''hello'' (snd ?r))
             = ''Error: No active backend available''"
    unfolding r using g
    by (simp add: processInferenceNative_def processInferenceNative_tflite_def
        processInferenceNative_onnx_def)
  have i: "is_initialized (snd ?r)" unfolding r using g by simp
  have b: "active_backend (snd ?r) = ''tflite_gpu''" unfolding r using g by simp
  have t: "tflite_service (snd ?r) = None" unfolding r by simp
  have f: "\<not> fst ?r" unfolding r by simp
  show ?thesis
    using selective_build_flags selective_build_missing n f i b t s by blast
qed









lemma mock_initialized_globals:
  "snd (initializeNative (mock_build P 0) path globals_at_load) =
     \<lparr>tflite_service = Some \<lparr>initialized = True, model_loaded = True, model_path = path,
                              interpreter = 0x11111111, model = 0x12345678,
                              gpu_delegate = 0x87654321, asset_manager = None, model_buffer = []\<rparr>,
      onnx_service = None, is_initialized = True, active_backend = ''tflite_gpu''\<rparr>"
  by (simp add: initializeNative_def initializeNative_tflite_def initializeNative_onnx_def
      mock_build_def mock_initialize_def mock_loadModel_def mock_loadModelFromFile_def
      mock_initializeGPUDelegate_def mock_buildInterpreter_def mock_warmUpModel_def
      mock_processInference_def mock_getPerformanceScore_def mock_TFLiteGPUService_def
      globals_at_load_def nullptr_def Let_def)




text \<open>
  Claim C9. \<open>cleanupNative\<close> twice gives the state that \<open>cleanupNative\<close> once gives, with
  \<open>is_initialized\<close> false and \<open>active_backend = "none"\<close>; on an orchestrator that is
  uninitialised (no service, backend \<open>"none"\<close>) it changes nothing; and after it
  \<open>processInferenceNative\<close> answers every input with \<open>"Error: Service not initialized"\<close>
  without touching a service. The mock service's own \<open>cleanup\<close> is idempotent in the
  same way, does nothing on an uninitialised service, and is followed by the same
  sentinel from \<open>processInference\<close>.
\<close>

theorem cleanup_idempotent:
  "cleanupNative B (cleanupNative B g) = cleanupNative B g
   \<and> \<not> is_initialized (cleanupNative B g)
   \<and> active_backend (cleanupNative B g) = ''none''
   \<and> (\<not> is_initialized g \<and> active_backend g = ''none'' \<and> tflite_service g = None \<and>
        onnx_service g = None \<longrightarrow> cleanupNative B g = g)
   \<and> (\<forall>input. processInferenceNative B input (cleanupNative B g)
          = (''Error: Service not initialized'', cleanupNative B g))
   \<and> mock_cleanup (mock_cleanup s) = mock_cleanup s
   \<and> \<not> initialized (mock_cleanup s)
   \<and> (\<not> initialized s \<longrightarrow> mock_cleanup s = s)
   \<and> (\<forall>P input. mock_processInference P input (mock_cleanup s)
          = (''Error: Service not initialized'', mock_cleanup s))"
proof -
  have 1: "cleanupNative B (cleanupNative B g) = cleanupNative B g"
    by (simp add: cleanupNative_def Let_def split: option.splits)
  have 2: "\<not> is_initialized (cleanupNative B g)" "active_backend (cleanupNative B g) = ''none''"
    by (simp_all add: cleanupNative_def Let_def split: option.splits)
  have 3: "\<not> is_initialized g \<and> active_backend g = ''none'' \<and> tflite_service g = None \<and>
        onnx_service g = None \<longrightarrow> cleanupNative B g = g"
    by (cases g) (simp add: cleanupNative_def Let_def)
  have 4: "processInferenceNative B input (cleanupNative B g)
          = (''Error: Service not initialized'', cleanupNative B g)" for input
    using 2 by (simp add: processInferenceNative_def)
  have 5: "\<not> initialized (mock_cleanup s)"
    by (simp add: mock_cleanup_def Let_def)
  have 6: "mock_cleanup (mock_cleanup s) = mock_cleanup s"
    using 5 by (simp add: mock_cleanup_def [of "mock_cleanup s"])
  have 7: "\<not> initialized s \<longrightarrow> mock_cleanup s = s"
    by (simp add: mock_cleanup_def)
  have 8: "mock_processInference P input (mock_cleanup s)
          = (''Error: Service not initialized'', mock_cleanup s)" for P input
    using 5 by (simp add: mock_processInference_def)
  show ?thesis using 1 2 3 4 5 6 7 8 by blast
qed

theorem cleanup_idempotent_witness:
  "is_initialized (snd (initializeNative (mock_build steady_platform 0) ''model.tflite'' globals_at_load)) \<and>
   cleanupNative (mock_build steady_platform 0)
     (snd (initializeNative (mock_build steady_platform 0) ''model.tflite'' globals_at_load))
     = globals_at_load \<and>
   cleanupNative (mock_build steady_platform 0)
     (cleanupNative (mock_build steady_platform 0)
        (snd (initializeNative (mock_build steady_platform 0) ''model.tflite'' globals_at_load)))
     = globals_at_load \<and>
   fst (processInferenceNative (mock_build steady_platform 0) ''hello''
          (cleanupNative (mock_build steady_platform 0)
             (snd (initializeNative (mock_build steady_platform 0) ''model.tflite'' globals_at_load))))
     = ''Error: Service not initialized'' \<and>
   \<not> is_initialized (globals_at_load :: (mock_service, ONNXMobileService) globals) \<and>
   cleanupNative (mock_build steady_platform 0) globals_at_load = globals_at_load \<and>
   \<not> initialized (mock_TFLiteGPUService 0) \<and>
   mock_cleanup (mock_TFLiteGPUService 0) = mock_TFLiteGPUService 0"
proof -
  let ?B = "mock_build steady_platform 0"
  let ?g = "snd (initializeNative ?B ''model.tflite'' globals_at_load)"
  let ?l = "globals_at_load :: (mock_service, ONNXMobileService) globals"
  have a: "is_initialized ?g"
    by (simp add: mock_initialized_globals)
  have b: "cleanupNative ?B ?g = ?l"
    unfolding mock_initialized_globals
    by (simp add: cleanupNative_def globals_at_load_def mock_build_def)
  have c: "\<not> is_initialized ?l \<and> active_backend ?l = ''none'' \<and> tflite_service ?l = None \<and>
        onnx_service ?l = None"
    by (simp add: globals_at_load_def)
  have d: "\<not> initialized (mock_TFLiteGPUService 0)"
    by (simp add: mock_TFLiteGPUService_def)
  show ?thesis
    using cleanup_idempotent [of ?B ?g "mock_TFLiteGPUService 0"]
      cleanup_idempotent [of ?B ?l "mock_TFLiteGPUService 0"] a b c d
    by simp
qed


section \<open>The mock service\<close>

text \<open>
  Claim C4, as amended. \<open>isGPUAvailable\<close> of the mock service changes nothing in the
  service and returns true in every state: with a delegate attached, and also with
  none, where it answers with its simulated availability.
\<close>

theorem isGPUAvailable_pure_and_always_true:
  "snd (mock_isGPUAvailable s) = s \<and> fst (mock_isGPUAvailable s)"
  by (simp add: mock_isGPUAvailable_def)

text \<open>
  Claim C4 as stated fails: a newly constructed service has no delegate, and
  \<open>isGPUAvailable\<close> returns true on it.
\<close>

theorem isGPUAvailable_true_without_delegate:
  "gpu_delegate (mock_TFLiteGPUService 0) = nullptr \<and>
   fst (mock_isGPUAvailable (mock_TFLiteGPUService 0))"
  by (simp add: mock_isGPUAvailable_def mock_TFLiteGPUService_def)

lemma mock_initializeWithAssets_from_exhausted:
  "\<not> fst (mock_candidates_loop P am candidates (s\<lparr>asset_manager := Some am\<rparr>)) \<Longrightarrow>
   mock_initializeWithAssets_from candidates P am s =
     mock_initializeFallbackMode
       (snd (mock_candidates_loop P am candidates (s\<lparr>asset_manager := Some am\<rparr>)))"
  by (cases "mock_candidates_loop P am candidates (s\<lparr>asset_manager := Some am\<rparr>)")
     (auto simp: mock_initializeWithAssets_from_def)

lemma mock_candidates_loop_empty_store:
  "mock_candidates_loop P empty_asset_store candidates s = (False, s)"
  by (induction candidates) (simp_all add: AAssetManager_open_def empty_asset_store_def)

lemma fallback_service:
  "snd (mock_initializeWithAssets P empty_asset_store (mock_TFLiteGPUService 0)) =
     \<lparr>initialized = True, model_loaded = False, model_path = [],
      interpreter = nullptr, model = 0, gpu_delegate = 0x99999999,
      asset_manager = Some empty_asset_store, model_buffer = []\<rparr>"
  by (simp add: mock_initializeWithAssets_def mock_initializeWithAssets_from_def
      mock_candidates_loop_empty_store mock_initializeFallbackMode_def mock_TFLiteGPUService_def)

lemma prod_model_files_loop_initialized:
  "initialized (snd (prod_model_files_loop R files s)) = initialized s"
proof (induction files arbitrary: s)
  case Nil
  show ?case by simp
next
  case (Cons f files)
  show ?case
    by (simp add: Cons.IH Let_def split_beta split: option.splits sum.splits)
qed

lemma prod_model_files_loop_empty_store:
  "asset_manager s = Some empty_asset_store \<Longrightarrow> prod_model_files_loop R files s = (Inr False, s)"
  by (induction files) (simp_all add: AAssetManager_open_def empty_asset_store_def)

text \<open>
  Claim C10. When the loop of \<open>initializeWithAssets\<close> runs off the end of the candidate
  list, the mock service ends initialised with no model loaded and with the non-null
  delegate pointer \<open>0x99999999\<close>; on that service \<open>isGPUAvailable\<close> returns true and
  \<open>getPerformanceScore\<close> is the GPU base value 0.7 plus the variation, clamped to
  \<open>[0, 1]\<close>, which lies in \<open>[0.67, 0.73]\<close> for a variation in \<open>[-0.03, 0.03]\<close>. Scores are
  real numbers here, not floats.
\<close>

theorem fallback_mode_presents_gpu:
  assumes "\<not> fst (mock_candidates_loop P am candidates (s\<lparr>asset_manager := Some am\<rparr>))"
  shows "fst (mock_initializeWithAssets_from candidates P am s) \<and>
         initialized (snd (mock_initializeWithAssets_from candidates P am s)) \<and>
         \<not> model_loaded (snd (mock_initializeWithAssets_from candidates P am s)) \<and>
         gpu_delegate (snd (mock_initializeWithAssets_from candidates P am s)) = 0x99999999 \<and>
         gpu_delegate (snd (mock_initializeWithAssets_from candidates P am s)) \<noteq> nullptr \<and>
         fst (mock_isGPUAvailable (snd (mock_initializeWithAssets_from candidates P am s))) \<and>
         fst (mock_getPerformanceScore Q (snd (mock_initializeWithAssets_from candidates P am s)))
           = min 1 (max 0 (0.7 + variation_draw Q)) \<and>
         (- 0.03 \<le> variation_draw Q \<and> variation_draw Q \<le> 0.03 \<longrightarrow>
            0.67 \<le> fst (mock_getPerformanceScore Q (snd (mock_initializeWithAssets_from candidates P am s))) \<and>
            fst (mock_getPerformanceScore Q (snd (mock_initializeWithAssets_from candidates P am s))) \<le> 0.73)"
  by (simp add: mock_initializeWithAssets_from_exhausted [OF assms] mock_initializeFallbackMode_def
      mock_isGPUAvailable_def mock_getPerformanceScore_def nullptr_def)

theorem fallback_mode_presents_gpu_witness:
  "\<not> fst (mock_candidates_loop steady_platform empty_asset_store model_candidates
            ((mock_TFLiteGPUService 0)\<lparr>asset_manager := Some empty_asset_store\<rparr>)) \<and>
   - 0.03 \<le> variation_draw steady_platform \<and> variation_draw steady_platform \<le> 0.03 \<and>
   \<not> model_loaded (snd (mock_initializeWithAssets steady_platform empty_asset_store (mock_TFLiteGPUService 0))) \<and>
   gpu_delegate (snd (mock_initializeWithAssets steady_platform empty_asset_store (mock_TFLiteGPUService 0)))
     = 0x99999999 \<and>
   fst (mock_isGPUAvailable
          (snd (mock_initializeWithAssets steady_platform empty_asset_store (mock_TFLiteGPUService 0)))) \<and>
   fst (mock_getPerformanceScore steady_platform
          (snd (mock_initializeWithAssets steady_platform empty_asset_store (mock_TFLiteGPUService 0))))
     = 0.71"
proof -
  have a: "\<not> fst (mock_candidates_loop steady_platform empty_asset_store model_candidates
            ((mock_TFLiteGPUService 0)\<lparr>asset_manager := Some empty_asset_store\<rparr>))"
    by (simp add: mock_candidates_loop_empty_store)
  have b: "- 0.03 \<le> variation_draw steady_platform \<and> variation_draw steady_platform \<le> 0.03"
    by (simp add: steady_platform_def)
  show ?thesis
    using fallback_mode_presents_gpu [OF a, of steady_platform] a b
    by (simp add: mock_initializeWithAssets_def steady_platform_def)
qed

text \<open>
  Claim C3, as amended. In the mock service, for every candidate list: when the loop of
  \<open>initializeWithAssets\<close> runs off the end of the list (no candidate exists and
  initialises), the method returns true and leaves the service in fallback mode,
  initialised with no model loaded. The production service has no fallback mode: when
  it is not yet initialised and none of its model files loads from the assets, its
  \<open>initializeWithAssets\<close> returns false and the service stays uninitialised.
\<close>

theorem initializeWithAssets_without_usable_asset:
  "(\<not> fst (mock_candidates_loop P am candidates (s\<lparr>asset_manager := Some am\<rparr>)) \<longrightarrow>
      fst (mock_initializeWithAssets_from candidates P am s) \<and>
      initialized (snd (mock_initializeWithAssets_from candidates P am s)) \<and>
      \<not> model_loaded (snd (mock_initializeWithAssets_from candidates P am s)))
   \<and> (\<not> initialized t \<and>
       fst (prod_loadModelFromAssets R (t\<lparr>asset_manager := Some am\<rparr>)) \<noteq> Inr True \<longrightarrow>
      (\<exists>t'. prod_initializeWithAssets R (Some am) t = Some (False, t') \<and> \<not> initialized t'))"
proof -
  have mock: "fst (mock_initializeWithAssets_from candidates P am s) \<and>
      initialized (snd (mock_initializeWithAssets_from candidates P am s)) \<and>
      \<not> model_loaded (snd (mock_initializeWithAssets_from candidates P am s))"
    if "\<not> fst (mock_candidates_loop P am candidates (s\<lparr>asset_manager := Some am\<rparr>))"
    by (simp add: mock_initializeWithAssets_from_exhausted [OF that] mock_initializeFallbackMode_def)
  have prod: "\<exists>t'. prod_initializeWithAssets R (Some am) t = Some (False, t') \<and> \<not> initialized t'"
    if u: "\<not> initialized t"
      and l: "fst (prod_loadModelFromAssets R (t\<lparr>asset_manager := Some am\<rparr>)) \<noteq> Inr True"
  proof (cases "prod_loadModelFromAssets R (t\<lparr>asset_manager := Some am\<rparr>)")
    case (Pair r t1)
    have i: "\<not> initialized t1"
      using prod_model_files_loop_initialized [of R model_files "t\<lparr>asset_manager := Some am\<rparr>"]
        Pair u by (simp add: prod_loadModelFromAssets_def)
    show ?thesis
    proof (cases r)
      case (Inl e)
      with Pair u i show ?thesis by (simp add: prod_initializeWithAssets_def)
    next
      case (Inr ok)
      with Pair l have "\<not> ok" by simp
      with Inr Pair u i show ?thesis by (simp add: prod_initializeWithAssets_def)
    qed
  qed
  show ?thesis using mock prod by blast
qed

theorem initializeWithAssets_without_usable_asset_witness:
  "\<not> fst (mock_candidates_loop steady_platform empty_asset_store model_candidates
            ((mock_TFLiteGPUService 0)\<lparr>asset_manager := Some empty_asset_store\<rparr>)) \<and>
   fst (mock_initializeWithAssets steady_platform empty_asset_store (mock_TFLiteGPUService 0)) \<and>
   initialized (snd (mock_initializeWithAssets steady_platform empty_asset_store (mock_TFLiteGPUService 0))) \<and>
   \<not> model_loaded (snd (mock_initializeWithAssets steady_platform empty_asset_store (mock_TFLiteGPUService 0))) \<and>
   \<not> initialized prod_TFLiteGPUService \<and>
   fst (prod_loadModelFromAssets runtime_without_model
          (prod_TFLiteGPUService\<lparr>asset_manager := Some empty_asset_store\<rparr>)) \<noteq> Inr True \<and>
   prod_initializeWithAssets runtime_without_model (Some empty_asset_store) prod_TFLiteGPUService
     \<noteq> None \<and>
   \<not> fst (the (prod_initializeWithAssets runtime_without_model (Some empty_asset_store)
                  prod_TFLiteGPUService)) \<and>
   \<not> initialized (snd (the (prod_initializeWithAssets runtime_without_model
                              (Some empty_asset_store) prod_TFLiteGPUService)))"
proof -
  have a: "\<not> fst (mock_candidates_loop steady_platform empty_asset_store model_candidates
            ((mock_TFLiteGPUService 0)\<lparr>asset_manager := Some empty_asset_store\<rparr>))"
    by (simp add: mock_candidates_loop_empty_store)
  have b: "\<not> initialized prod_TFLiteGPUService"
    by (simp add: prod_TFLiteGPUService_def)
  have c: "fst (prod_loadModelFromAssets runtime_without_model
          (prod_TFLiteGPUService\<lparr>asset_manager := Some empty_asset_store\<rparr>)) \<noteq> Inr True"
    by (simp add: prod_loadModelFromAssets_def prod_model_files_loop_empty_store)
  from initializeWithAssets_without_usable_asset
        [of steady_platform empty_asset_store model_candidates "mock_TFLiteGPUService 0"
            prod_TFLiteGPUService runtime_without_model] a b c
  have m: "fst (mock_initializeWithAssets_from model_candidates steady_platform empty_asset_store
                  (mock_TFLiteGPUService 0)) \<and>
      initialized (snd (mock_initializeWithAssets_from model_candidates steady_platform
                          empty_asset_store (mock_TFLiteGPUService 0))) \<and>
      \<not> model_loaded (snd (mock_initializeWithAssets_from model_candidates steady_platform
                          empty_asset_store (mock_TFLiteGPUService 0)))"
    and p: "\<exists>t'. prod_initializeWithAssets runtime_without_model (Some empty_asset_store)
                    prod_TFLiteGPUService = Some (False, t') \<and> \<not> initialized t'"
    by blast+
  from p have q: "prod_initializeWithAssets runtime_without_model (Some empty_asset_store)
                    prod_TFLiteGPUService \<noteq> None"
    and r: "\<not> fst (the (prod_initializeWithAssets runtime_without_model (Some empty_asset_store)
                  prod_TFLiteGPUService))"
    and i: "\<not> initialized (snd (the (prod_initializeWithAssets runtime_without_model
                              (Some empty_asset_store) prod_TFLiteGPUService)))"
    by auto
  show ?thesis
    using a b c m q r i by (simp add: mock_initializeWithAssets_def)
qed

text \<open>
  Claim C3 as stated fails on the production service: with an asset store that holds no
  model, \<open>initializeWithAssets\<close> returns false and the service is not initialised.
\<close>

theorem prod_initializeWithAssets_returns_false:
  "prod_initializeWithAssets runtime_without_model (Some empty_asset_store) prod_TFLiteGPUService
     = Some (False, prod_TFLiteGPUService\<lparr>asset_manager := Some empty_asset_store\<rparr>) \<and>
   \<not> initialized (prod_TFLiteGPUService\<lparr>asset_manager := Some empty_asset_store\<rparr>)"
  by (simp add: prod_initializeWithAssets_def prod_loadModelFromAssets_def
      prod_model_files_loop_empty_store prod_TFLiteGPUService_def)

lemma mock_fallback_response_parts:
  "mock_generateFallbackResponse P input s =
     ''TensorFlow Lite GPU Mock Response:'' @
     (''\<newline>'' @ (''Input: '' @ take 100 input) @
       ((if length input > 100 then ''...'' else []) @ ''\<newline>''
        @ ''Processing: GPU-accelerated inference simulation\<newline>'')) @
     (''Backend: Adreno 750 GPU (simulated)'' @
      (''\<newline>Model: Mobile-optimized language model (mock)\<newline>Performance: ~''
        @ (if gpu_delegate s \<noteq> nullptr then ''200-500ms'' else ''500-1000ms'')
        @ '' response time\<newline>Status: Architecture ready for actual model integration\<newline>''
        @ ''GPU Available: Yes\<newline>'')) @
     (''Performance Score: '' @ fixed_setprecision P 1 (fst (mock_getPerformanceScore P s) * 100) @ ''%'')"
  by (simp add: mock_generateFallbackResponse_def substr0_def mock_isGPUAvailable_def Let_def)

text \<open>
  Claim C5. On a mock service that is initialised with no model loaded,
  \<open>processInference\<close> leaves the service unchanged and returns, for every input, a
  non-empty string that starts with the label \<open>"TensorFlow Lite GPU Mock Response:"\<close>,
  contains \<open>"Input: "\<close> followed by the first 100 bytes of the input, contains the
  simulated backend \<open>"Backend: Adreno 750 GPU (simulated)"\<close>, and ends with the
  performance score in percent. The function has no exception branch: nothing in the
  method raises, \<open>substr\<close> being called at position 0.
\<close>

theorem fallback_mode_processInference_diagnostic:
  assumes "initialized s" and "\<not> model_loaded s"
  shows "snd (mock_processInference P input s) = s \<and>
         fst (mock_processInference P input s) \<noteq> [] \<and>
         prefix ''TensorFlow Lite GPU Mock Response:'' (fst (mock_processInference P input s)) \<and>
         sublist (''Input: '' @ take 100 input) (fst (mock_processInference P input s)) \<and>
         sublist ''Backend: Adreno 750 GPU (simulated)'' (fst (mock_processInference P input s)) \<and>
         suffix (''Performance Score: ''
                   @ fixed_setprecision P 1 (fst (mock_getPerformanceScore P s) * 100) @ ''%'')
                (fst (mock_processInference P input s))"
proof -
  let ?r = "fst (mock_processInference P input s)"
  have r: "?r = mock_generateFallbackResponse P input s"
    and st: "snd (mock_processInference P input s) = s"
    using assms by (simp_all add: mock_processInference_def)
  note parts = mock_fallback_response_parts [of P input s]
  have 1: "prefix ''TensorFlow Lite GPU Mock Response:'' ?r"
    unfolding r by (subst parts) (rule prefixI, rule refl)
  have 2: "sublist (''Input: '' @ take 100 input) ?r"
    unfolding r
    by (subst parts, unfold sublist_def)
       (rule exI [of _ "''TensorFlow Lite GPU Mock Response:\<newline>''"], rule exI, simp)
  have 3: "sublist ''Backend: Adreno 750 GPU (simulated)'' ?r"
    unfolding r
    by (subst parts, unfold sublist_def)
       (rule exI [of _ "''TensorFlow Lite GPU Mock Response:'' @
     (''\<newline>'' @ (''Input: '' @ take 100 input) @
       ((if length input > 100 then ''...'' else []) @ ''\<newline>''
        @ ''Processing: GPU-accelerated inference simulation\<newline>''))"], rule exI, simp)
  have 4: "suffix (''Performance Score: ''
                   @ fixed_setprecision P 1 (fst (mock_getPerformanceScore P s) * 100) @ ''%'') ?r"
    unfolding r by (subst parts, unfold suffix_def) (rule exI, simp)
  have 5: "?r \<noteq> []" using 1 by (auto simp: prefix_def)
  show ?thesis using st 1 2 3 4 5 by blast
qed

theorem fallback_mode_processInference_diagnostic_witness:
  "initialized (snd (mock_initializeWithAssets steady_platform empty_asset_store (mock_TFLiteGPUService 0))) \<and>
   \<not> model_loaded (snd (mock_initializeWithAssets steady_platform empty_asset_store (mock_TFLiteGPUService 0))) \<and>
   fst (mock_processInference steady_platform []
          (snd (mock_initializeWithAssets steady_platform empty_asset_store (mock_TFLiteGPUService 0)))) \<noteq> [] \<and>
   prefix ''TensorFlow Lite GPU Mock Response:''
     (fst (mock_processInference steady_platform (replicate 10000 (CHR ''x''))
          (snd (mock_initializeWithAssets steady_platform empty_asset_store (mock_TFLiteGPUService 0))))) \<and>
   sublist (''Input: '' @ replicate 100 (CHR ''x''))
     (fst (mock_processInference steady_platform (replicate 10000 (CHR ''x''))
          (snd (mock_initializeWithAssets steady_platform empty_asset_store (mock_TFLiteGPUService 0))))) \<and>
   suffix ''Performance Score: 71.0%''
     (fst (mock_processInference steady_platform [CHR 0xC3, CHR 0xA9]
          (snd (mock_initializeWithAssets steady_platform empty_asset_store (mock_TFLiteGPUService 0)))))"
proof -
  let ?s = "snd (mock_initializeWithAssets steady_platform empty_asset_store (mock_TFLiteGPUService 0))"
  have a: "initialized ?s" and b: "\<not> model_loaded ?s"
    by (simp_all add: fallback_service)
  have score: "fixed_setprecision steady_platform 1 (fst (mock_getPerformanceScore steady_platform ?s) * 100)
                 = ''71.0''"
    by (simp add: fallback_service mock_getPerformanceScore_def nullptr_def steady_platform_def
        print_fixed_def print_unsigned.simps decimal_digit_def)
  from fallback_mode_processInference_diagnostic [OF a b, of steady_platform "[]"]
  have e1: "fst (mock_processInference steady_platform [] ?s) \<noteq> []"
    by blast
  from fallback_mode_processInference_diagnostic [OF a b, of steady_platform "replicate 10000 (CHR ''x'')"]
  have e2: "prefix ''TensorFlow Lite GPU Mock Response:''
              (fst (mock_processInference steady_platform (replicate 10000 (CHR ''x'')) ?s))"
    and e3: "sublist (''Input: '' @ take 100 (replicate 10000 (CHR ''x'')))
              (fst (mock_processInference steady_platform (replicate 10000 (CHR ''x'')) ?s))"
    by blast+
  from fallback_mode_processInference_diagnostic [OF a b, of steady_platform "[CHR 0xC3, CHR 0xA9]"]
  have e4: "suffix (''Performance Score: ''
                   @ fixed_setprecision steady_platform 1
                       (fst (mock_getPerformanceScore steady_platform ?s) * 100) @ ''%'')
              (fst (mock_processInference steady_platform [CHR 0xC3, CHR 0xA9] ?s))"
    by blast
  have e5: "sublist (''Input: '' @ replicate 100 (CHR ''x''))
              (fst (mock_processInference steady_platform (replicate 10000 (CHR ''x'')) ?s))"
    using e3 by simp
  have e6: "suffix ''Performance Score: 71.0%''
              (fst (mock_processInference steady_platform [CHR 0xC3, CHR 0xA9] ?s))"
    using e4 unfolding score by simp
  show ?thesis
    using a b e1 e2 e5 e6 by blast
qed


section \<open>Initialisation of the TensorFlow Lite service\<close>





















section \<open>Output decoding\<close>

text \<open>
  The scan over the indices from \<open>lo\<close> up to \<open>hi\<close>, started at a \<open>best\<close> that is the first
  maximum of the indices below \<open>lo\<close>, ends at the first maximum of all indices.
\<close>

lemma argmax_scan_upt:
  assumes "b < lo" and "\<forall>j<lo. score j \<le> score b" and "\<forall>j<b. score j < score b"
  shows "\<exists>best. argmax_scan score [lo..<hi] (b, score b) = (best, score best) \<and>
           best < max lo hi \<and> (\<forall>j<max lo hi. score j \<le> score best) \<and>
           (\<forall>j<best. score j < score best)"
  using assms
proof (induction "hi - lo" arbitrary: lo b)
  case 0
  then have "[lo..<hi] = []" by simp
  with 0 show ?case by (auto simp: max_def)
next
  case (Suc n)
  then have lt: "lo < hi" and n: "n = hi - Suc lo" by auto
  have upt: "[lo..<hi] = lo # [Suc lo..<hi]" using lt by (simp add: upt_conv_Cons)
  have mx: "max (Suc lo) hi = max lo hi" using lt by (simp add: max_def)
  show ?case
  proof (cases "score lo > score b")
    case True
    have 1: "lo < Suc lo" by simp
    have 2: "\<forall>j<Suc lo. score j \<le> score lo"
      using Suc.prems(2) True by (auto simp: less_Suc_eq)
    have 3: "\<forall>j<lo. score j < score lo"
      using Suc.prems(2) True by (meson le_less_trans)
    from Suc.hyps(1) [OF n 1 2 3] show ?thesis
      using True by (simp add: upt mx)
  next
    case False
    have 1: "b < Suc lo" using Suc.prems(1) by simp
    have 2: "\<forall>j<Suc lo. score j \<le> score b"
      using Suc.prems(2) False by (auto simp: less_Suc_eq)
    from Suc.hyps(1) [OF n 1 2 Suc.prems(3)] show ?thesis
      using False by (simp add: upt mx)
  qed
qed

lemma argmax_scan_first_max:
  assumes "0 < n"
  shows "\<exists>best<n. argmax_scan score [1..<n] (0, score 0) = (best, score best) \<and>
           (\<forall>j<n. score j \<le> score best) \<and> (\<forall>j<best. score j < score best)"
proof -
  have "\<exists>best. argmax_scan score [1..<n] (0, score 0) = (best, score best) \<and>
           best < max 1 n \<and> (\<forall>j<max 1 n. score j \<le> score best) \<and>
           (\<forall>j<best. score j < score best)"
    by (rule argmax_scan_upt) auto
  moreover have "max 1 n = n" using assms by (simp add: max_def)
  ultimately show ?thesis by auto
qed

lemma prod_decodeOutput_last_position:
  assumes "interpreter s = Some I" "outputs I = Some out # rest"
    "tensor_type out = kTfLiteFloat32" "tensor_dims out = Some [b, t, v]"
    "1 \<le> b" "1 \<le> t" "0 < v"
  shows "prod_decodeOutput P s =
           ''TensorFlow Lite response (next token ''
             @ print_signed (int (fst (decode_last_position (data_f out) t v)))
             @ '', score: '' @ fixed_setprecision P 3 (snd (decode_last_position (data_f out) t v))
             @ '')''"
  using assms by (simp add: prod_decodeOutput_def split_beta Let_def)

lemma prod_decodeOutput_flat:
  assumes "interpreter s = Some I" "outputs I = Some out # rest"
    "tensor_type out = kTfLiteFloat32"
    "length (case tensor_dims out of Some d \<Rightarrow> d | None \<Rightarrow> []) \<noteq> 3"
  shows "prod_decodeOutput P s =
           ''TensorFlow Lite response (token ''
             @ print_unsigned (fst (decode_flat (data_f out) (tensor_bytes out div 4)))
             @ '', score: '' @ fixed_setprecision P 3 (snd (decode_flat (data_f out) (tensor_bytes out div 4)))
             @ '')''"
  using assms by (simp add: prod_decodeOutput_def split_beta Let_def)

text \<open>
  Claim C8. For a float output tensor, \<open>decodeOutput\<close> reports the first index that holds
  the maximum: every score in range is at most the reported one and every score before
  it is strictly smaller. This holds for a rank-3 tensor \<open>[b, t, v]\<close> with \<open>b \<ge> 1\<close>,
  \<open>t \<ge> 1\<close>, \<open>v > 0\<close>, over the \<open>v\<close> scores of the last position, and for a tensor of any
  other rank, over its \<open>bytes / 4\<close> elements. On the scores 0.1, 0.9, 0.9, 0.2 both scans
  select index 1 with score 0.9. Scores are real numbers here, so NaN is not covered.
\<close>

theorem decodeOutput_selects_first_maximum:
  assumes "interpreter s = Some I" and "outputs I = Some out # rest"
    and "tensor_type out = kTfLiteFloat32"
  shows "(tensor_dims out = Some [b, t, v] \<and> 1 \<le> b \<and> 1 \<le> t \<and> 0 < v \<longrightarrow>
           (\<exists>best<nat v.
              prod_decodeOutput P s =
                ''TensorFlow Lite response (next token '' @ print_signed (int best)
                  @ '', score: '' @ fixed_setprecision P 3 (data_f out ! (nat ((t - 1) * v) + best))
                  @ '')'' \<and>
              (\<forall>j<nat v. data_f out ! (nat ((t - 1) * v) + j) \<le> data_f out ! (nat ((t - 1) * v) + best)) \<and>
              (\<forall>j<best. data_f out ! (nat ((t - 1) * v) + j) < data_f out ! (nat ((t - 1) * v) + best))))
       \<and> (length (case tensor_dims out of Some d \<Rightarrow> d | None \<Rightarrow> []) \<noteq> 3 \<and>
          0 < tensor_bytes out div 4 \<longrightarrow>
           (\<exists>best<tensor_bytes out div 4.
              prod_decodeOutput P s =
                ''TensorFlow Lite response (token '' @ print_unsigned best
                  @ '', score: '' @ fixed_setprecision P 3 (data_f out ! best) @ '')'' \<and>
              (\<forall>j<tensor_bytes out div 4. data_f out ! j \<le> data_f out ! best) \<and>
              (\<forall>j<best. data_f out ! j < data_f out ! best)))
       \<and> decode_last_position [0.1, 0.9, 0.9, 0.2] 1 4 = (1, 0.9)
       \<and> decode_flat [0.1, 0.9, 0.9, 0.2] 4 = (1, 0.9)"
proof -
  have last: "\<exists>best<nat v.
              prod_decodeOutput P s =
                ''TensorFlow Lite response (next token '' @ print_signed (int best)
                  @ '', score: '' @ fixed_setprecision P 3 (data_f out ! (nat ((t - 1) * v) + best))
                  @ '')'' \<and>
              (\<forall>j<nat v. data_f out ! (nat ((t - 1) * v) + j) \<le> data_f out ! (nat ((t - 1) * v) + best)) \<and>
              (\<forall>j<best. data_f out ! (nat ((t - 1) * v) + j) < data_f out ! (nat ((t - 1) * v) + best))"
    if d: "tensor_dims out = Some [b, t, v]" "1 \<le> b" "1 \<le> t" "0 < v"
  proof -
    from d(4) have "0 < nat v" by simp
    from argmax_scan_first_max [OF this, of "\<lambda>i. data_f out ! (nat ((t - 1) * v) + i)"]
    obtain best where best: "best < nat v"
      "decode_last_position (data_f out) t v = (best, data_f out ! (nat ((t - 1) * v) + best))"
      "\<forall>j<nat v. data_f out ! (nat ((t - 1) * v) + j) \<le> data_f out ! (nat ((t - 1) * v) + best)"
      "\<forall>j<best. data_f out ! (nat ((t - 1) * v) + j) < data_f out ! (nat ((t - 1) * v) + best)"
      by (auto simp: decode_last_position_def Let_def)
    show ?thesis
      using prod_decodeOutput_last_position [OF assms d, of P] best
      by (intro exI [of _ best]) simp
  qed
  have flat: "\<exists>best<tensor_bytes out div 4.
              prod_decodeOutput P s =
                ''TensorFlow Lite response (token '' @ print_unsigned best
                  @ '', score: '' @ fixed_setprecision P 3 (data_f out ! best) @ '')'' \<and>
              (\<forall>j<tensor_bytes out div 4. data_f out ! j \<le> data_f out ! best) \<and>
              (\<forall>j<best. data_f out ! j < data_f out ! best)"
    if r: "length (case tensor_dims out of Some d \<Rightarrow> d | None \<Rightarrow> []) \<noteq> 3"
      and e: "0 < tensor_bytes out div 4"
  proof -
    from argmax_scan_first_max [OF e, of "\<lambda>i. data_f out ! i"]
    obtain best where best: "best < tensor_bytes out div 4"
      "decode_flat (data_f out) (tensor_bytes out div 4) = (best, data_f out ! best)"
      "\<forall>j<tensor_bytes out div 4. data_f out ! j \<le> data_f out ! best"
      "\<forall>j<best. data_f out ! j < data_f out ! best"
      by (auto simp: decode_flat_def)
    show ?thesis
      using prod_decodeOutput_flat [OF assms r, of P] best
      by (intro exI [of _ best]) simp
  qed
  have ex1: "decode_last_position [0.1, 0.9, 0.9, 0.2] 1 4 = (1, 0.9)"
    by (simp add: decode_last_position_def upt_conv_Cons)
  have ex2: "decode_flat [0.1, 0.9, 0.9, 0.2] 4 = (1, 0.9)"
    by (simp add: decode_flat_def upt_conv_Cons)
  show ?thesis using last flat ex1 ex2 by blast
qed

theorem decodeOutput_selects_first_maximum_witness:
  "interpreter (decoding_service [1, 1, 4]) = Some (scoring_interpreter [1, 1, 4]) \<and>
   outputs (scoring_interpreter [1, 1, 4]) =
     [Some \<lparr>tensor_type = kTfLiteFloat32, tensor_dims = Some [1, 1, 4],
            tensor_bytes = 16, data_f = [0.1, 0.9, 0.9, 0.2], data_i32 = []\<rparr>] \<and>
   prod_decodeOutput steady_platform (decoding_service [1, 1, 4])
     = ''TensorFlow Lite response (next token 1, score: 0.900)'' \<and>
   prod_decodeOutput steady_platform (decoding_service [4])
     = ''TensorFlow Lite response (token 1, score: 0.900)''"
proof -
  let ?out = "\<lparr>tensor_type = kTfLiteFloat32, tensor_dims = Some [1, 1, 4],
                tensor_bytes = 16, data_f = [0.1, 0.9, 0.9, 0.2 :: real], data_i32 = []\<rparr>"
  have a: "interpreter (decoding_service [1, 1, 4]) = Some (scoring_interpreter [1, 1, 4])"
    by (simp add: decoding_service_def)
  have b: "outputs (scoring_interpreter [1, 1, 4]) = Some ?out # []"
    by (simp add: scoring_interpreter_def)
  have c: "tensor_type ?out = kTfLiteFloat32" by simp
  from decodeOutput_selects_first_maximum [OF a b c]
  have last: "decode_last_position [0.1, 0.9, 0.9, 0.2] 1 4 = (1, 0.9)"
    and flat: "decode_flat [0.1, 0.9, 0.9, 0.2] 4 = (1, 0.9)"
    by blast+
  have p1: "print_signed 1 = ''1''" "print_unsigned (Suc 0) = ''1''"
    by (simp_all add: print_signed_def print_unsigned.simps decimal_digit_def)
  have p2: "fixed_setprecision steady_platform 3 (9 / 10) = ''0.900''"
    by (simp add: steady_platform_def print_fixed_def print_unsigned.simps decimal_digit_def)
  have dl: "decode_last_position [1 / 10, 9 / 10, 9 / 10, 1 / 5] 1 4 = (1, 9 / 10)"
    using last by simp
  have r3: "prod_decodeOutput steady_platform (decoding_service [1, 1, 4])
     = ''TensorFlow Lite response (next token 1, score: 0.900)''"
    using prod_decodeOutput_last_position [OF a b c, of 1 1 4 steady_platform]
    by (simp add: dl p1 p2)
  let ?flat = "\<lparr>tensor_type = kTfLiteFloat32, tensor_dims = Some [4],
                 tensor_bytes = 16, data_f = [0.1, 0.9, 0.9, 0.2 :: real], data_i32 = []\<rparr>"
  have a': "interpreter (decoding_service [4]) = Some (scoring_interpreter [4])"
    by (simp add: decoding_service_def)
  have b': "outputs (scoring_interpreter [4]) = Some ?flat # []"
    by (simp add: scoring_interpreter_def)
  have c': "tensor_type ?flat = kTfLiteFloat32" by simp
  have df: "decode_flat [1 / 10, 9 / 10, 9 / 10, 1 / 5] 4 = (1, 9 / 10)"
    using flat by simp
  have r1: "prod_decodeOutput steady_platform (decoding_service [4])
     = ''TensorFlow Lite response (token 1, score: 0.900)''"
    using prod_decodeOutput_flat [OF a' b' c', of steady_platform]
    by (simp add: df p1 p2)
  show ?thesis using a b r3 r1 by simp
qed

end
